theory Spec2Isabelle
  imports Complex_Main "HOL-Library.AList"
begin

section \<open>Python values\<close>

text \<open>
  HumanLoopML is a Python program: scripts that train a text classifier and retrain it
  with human feedback, and an API that serves it. Its strings are modelled as
  \<^typ>\<open>string\<close>, one \<^typ>\<open>char\<close> per code point, so the model covers the code points
  0 to 255; its integers are \<^typ>\<open>int\<close>; a float is a finite value, taken as the real
  number it denotes, or one of the three values that are not finite. An exception is
  a value of \<open>py_exception\<close>, and a function that may raise returns a sum;
  \<open>External_failure\<close> stands for an exception of a library that the program calls.
\<close>

datatype py_exception =
    ValueError
  | OverflowError
  | FileNotFoundError
  | IndexError
  | OSError
  | UnpicklingError
  | AttributeError
  | External_failure

datatype pyfloat = Finite real | PosInf | NegInf | NaN

text \<open>
  \<open>int(x)\<close> on a float truncates toward zero; it raises \<open>OverflowError\<close> on an
  infinity and \<open>ValueError\<close> on a NaN.
\<close>

definition int_of_float :: "pyfloat \<Rightarrow> py_exception + int" where
  "int_of_float w =
     (case w of
        Finite x \<Rightarrow> Inr (if 0 \<le> x then \<lfloor>x\<rfloor> else - \<lfloor>- x\<rfloor>)
      | PosInf \<Rightarrow> Inl OverflowError
      | NegInf \<Rightarrow> Inl OverflowError
      | NaN \<Rightarrow> Inl ValueError)"

definition is_space :: "char \<Rightarrow> bool" where
  "is_space c =
     (let n = (of_char c :: nat) in
      (9 \<le> n \<and> n \<le> 13) \<or> (28 \<le> n \<and> n \<le> 32) \<or> n = 133 \<or> n = 160)"

definition strip :: "string \<Rightarrow> string" where
  "strip s = rev (dropWhile is_space (rev (dropWhile is_space s)))"

text \<open>\<open>str.startswith\<close>, \<open>str.endswith\<close> and \<open>str.replace\<close> (every occurrence, left to right).\<close>

definition startswith :: "string \<Rightarrow> string \<Rightarrow> bool" where
  "startswith s p = (take (length p) s = p)"

definition endswith :: "string \<Rightarrow> string \<Rightarrow> bool" where
  "endswith s p = (length p \<le> length s \<and> drop (length s - length p) s = p)"

fun replace :: "string \<Rightarrow> string \<Rightarrow> string \<Rightarrow> string" where
  "replace [] old new = (if old = [] then new else [])"
| "replace (c # s) old new =
     (if old = [] then new @ c # replace s old new
      else if startswith (c # s) old then new @ replace (drop (length old) (c # s)) old new
      else c # replace s old new)"

declare replace.simps [simp del]

text \<open>
  \<open>int(s)\<close> on a string: white space is stripped, one sign is allowed, and the digits
  may be separated by single underscores; anything else raises \<open>ValueError\<close>. Below
  code point 256 the decimal digits are \<open>0\<close> to \<open>9\<close>.
\<close>

definition is_digit :: "char \<Rightarrow> bool" where
  "is_digit c = (let n = (of_char c :: nat) in 48 \<le> n \<and> n \<le> 57)"

definition digit_val :: "char \<Rightarrow> int" where
  "digit_val c = int (of_char c) - 48"

fun digits_value :: "int \<Rightarrow> bool \<Rightarrow> string \<Rightarrow> int option" where
  "digits_value acc after_digit [] = (if after_digit then Some acc else None)"
| "digits_value acc after_digit (c # cs) =
     (if is_digit c then digits_value (10 * acc + digit_val c) True cs
      else if c = CHR ''_'' \<and> after_digit then digits_value acc False cs
      else None)"

definition int_of_str :: "string \<Rightarrow> py_exception + int" where
  "int_of_str s =
     (case strip s of
        [] \<Rightarrow> Inl ValueError
      | c # cs \<Rightarrow>
          if c = CHR ''-'' then
            (case digits_value 0 False cs of None \<Rightarrow> Inl ValueError | Some v \<Rightarrow> Inr (- v))
          else if c = CHR ''+'' then
            (case digits_value 0 False cs of None \<Rightarrow> Inl ValueError | Some v \<Rightarrow> Inr v)
          else
            (case digits_value 0 False (c # cs) of None \<Rightarrow> Inl ValueError | Some v \<Rightarrow> Inr v))"

text \<open>\<open>str(n)\<close> on an integer, as the f-strings that build the file names use it.\<close>

definition digit_char :: "nat \<Rightarrow> char" where
  "digit_char d = ''0123456789'' ! d"

function str_nat :: "nat \<Rightarrow> string" where
  "str_nat n = (if n < 10 then [digit_char n] else str_nat (n div 10) @ [digit_char (n mod 10)])"
  by pat_completeness auto
termination
  by (relation "measure id") auto

declare str_nat.simps [simp del]

definition str_int :: "int \<Rightarrow> string" where
  "str_int i = (if i < 0 then CHR ''-'' # str_nat (nat (- i)) else str_nat (nat i))"

section \<open>training/retrain\_with\_feedback.py: combine\_datasets\<close>

text \<open>
  The inner loop \<open>for _ in range(int(feedback_weight))\<close> appends one text and one label
  per round; \<open>range(k)\<close> is empty for \<open>k \<le> 0\<close>, so it runs \<open>nat k\<close> rounds.
\<close>

fun append_times :: "nat \<Rightarrow> 't \<Rightarrow> 'l \<Rightarrow> 't list \<times> 'l list \<Rightarrow> 't list \<times> 'l list" where
  "append_times 0 text label acc = acc"
| "append_times (Suc n) text label (combined_texts, combined_labels) =
     append_times n text label (combined_texts @ [text], combined_labels @ [label])"

text \<open>
  The outer loop over \<open>feedback_samples\<close>. \<open>int(feedback_weight)\<close> is evaluated once
  per sample, so a non-finite weight raises at the first sample.
\<close>

fun add_feedback ::
  "('t \<times> 'l) list \<Rightarrow> pyfloat \<Rightarrow> 't list \<times> 'l list \<Rightarrow> py_exception + ('t list \<times> 'l list)" where
  "add_feedback [] feedback_weight acc = Inr acc"
| "add_feedback ((text, label) # rest) feedback_weight acc =
     (case int_of_float feedback_weight of
        Inl e \<Rightarrow> Inl e
      | Inr k \<Rightarrow> add_feedback rest feedback_weight (append_times (nat k) text label acc))"

text \<open>
  \<open>combine_datasets\<close>: the lists start as copies of the original data, the feedback is
  appended, and the summary that is printed evaluates \<open>int(feedback_weight)\<close> once more
  (so a non-finite weight raises even when there is no feedback). \<open>np.array\<close> keeps the
  rows and their order.
\<close>

definition combine_datasets ::
  "'t list \<Rightarrow> 'l list \<Rightarrow> ('t \<times> 'l) list \<Rightarrow> pyfloat \<Rightarrow> py_exception + ('t list \<times> 'l list)" where
  "combine_datasets original_texts original_labels feedback_samples feedback_weight =
     (case add_feedback feedback_samples feedback_weight (original_texts, original_labels) of
        Inl e \<Rightarrow> Inl e
      | Inr combined \<Rightarrow>
          (case int_of_float feedback_weight of
             Inl e \<Rightarrow> Inl e
           | Inr k \<Rightarrow> Inr combined))"

section \<open>Files of the models directory\<close>

text \<open>
  A directory is an association list from file names to contents; \<open>None\<close> stands for
  a directory that does not exist. A file holds a joblib dump of an artifact (the
  classifier and the vectorizer are opaque values of type \<open>'a\<close>), a text, or the JSON
  list of label names. \<open>joblib.load\<close> raises on a missing file and on a file that is
  not a joblib dump.
\<close>

datatype 'a stored_file = Joblib 'a | Text string | Json_labels "string list"

type_synonym 'a directory = "(string \<times> 'a stored_file) list"

definition path_exists :: "(string \<times> 'f) list option \<Rightarrow> string \<Rightarrow> bool" where
  "path_exists dir name = (case dir of None \<Rightarrow> False | Some d \<Rightarrow> map_of d name \<noteq> None)"

definition listdir :: "(string \<times> 'f) list \<Rightarrow> string list" where
  "listdir d = map fst d"

definition makedirs :: "(string \<times> 'f) list option \<Rightarrow> (string \<times> 'f) list" where
  "makedirs dir = (case dir of None \<Rightarrow> [] | Some d \<Rightarrow> d)"

definition write_file :: "string \<Rightarrow> 'f \<Rightarrow> (string \<times> 'f) list \<Rightarrow> (string \<times> 'f) list" where
  "write_file name content d = AList.update name content d"

definition joblib_load :: "'a directory option \<Rightarrow> string \<Rightarrow> py_exception + 'a" where
  "joblib_load dir name =
     (case dir of
        None \<Rightarrow> Inl FileNotFoundError
      | Some d \<Rightarrow>
          (case map_of d name of
             None \<Rightarrow> Inl FileNotFoundError
           | Some (Joblib a) \<Rightarrow> Inr a
           | Some _ \<Rightarrow> Inl UnpicklingError))"

text \<open>The file names \<open>model_v{version}.joblib\<close>, \<open>vectorizer_v{version}.joblib\<close>, \<open>metrics_v{version}.json\<close>.\<close>

definition model_path :: "int \<Rightarrow> string" where
  "model_path version = ''model_v'' @ str_int version @ ''.joblib''"

definition vectorizer_path :: "int \<Rightarrow> string" where
  "vectorizer_path version = ''vectorizer_v'' @ str_int version @ ''.joblib''"

definition metrics_path :: "int \<Rightarrow> string" where
  "metrics_path version = ''metrics_v'' @ str_int version @ ''.json''"

section \<open>get\_current\_model\_version, in training/retrain\_with\_feedback.py and in api/main.py\<close>

text \<open>
  Both modules name their function \<open>get_current_model_version\<close>; here the prefix
  tells the module. The loop over \<open>os.listdir\<close> that both functions contain: a file name that starts
  with \<open>model_v\<close> and ends with \<open>.joblib\<close> gives a version when what is left after
  removing both parts parses as an integer, and is skipped on \<open>ValueError\<close>.
\<close>

fun scan_versions :: "string list \<Rightarrow> int list" where
  "scan_versions [] = []"
| "scan_versions (filename # rest) =
     (if startswith filename ''model_v'' \<and> endswith filename ''.joblib'' then
        (case int_of_str (replace (replace filename ''model_v'' '''') ''.joblib'' '''') of
           Inl e \<Rightarrow> scan_versions rest
         | Inr version \<Rightarrow> version # scan_versions rest)
      else scan_versions rest)"

declare scan_versions.simps [simp del]

text \<open>\<open>max(versions)\<close>, called on a list that is not empty.\<close>

fun py_max :: "int list \<Rightarrow> int" where
  "py_max [] = 0"
| "py_max (x # xs) = fold max xs x"

text \<open>
  The function of the retraining script: the highest scanned version, 0 when the
  directory is missing or holds no version. It does not read \<open>current_version.txt\<close>.
\<close>

definition retrain_get_current_model_version :: "'a directory option \<Rightarrow> int" where
  "retrain_get_current_model_version dir =
     (case dir of
        None \<Rightarrow> 0
      | Some d \<Rightarrow>
          (let versions = scan_versions (listdir d)
           in if versions \<noteq> [] then py_max versions else 0))"

text \<open>
  The function of the API: the integer in \<open>current_version.txt\<close> when that file
  exists (\<open>int\<close> raises \<open>ValueError\<close> on any other content), otherwise the highest
  scanned version, otherwise \<open>None\<close>.
\<close>

definition api_get_current_model_version :: "'a directory option \<Rightarrow> py_exception + int option" where
  "api_get_current_model_version dir =
     (if path_exists dir ''current_version.txt'' then
        (case map_of (makedirs dir) ''current_version.txt'' of
           Some (Text s) \<Rightarrow>
             (case int_of_str (strip s) of Inl e \<Rightarrow> Inl e | Inr v \<Rightarrow> Inr (Some v))
         | _ \<Rightarrow> Inl ValueError)
      else
        (let versions = (case dir of None \<Rightarrow> [] | Some d \<Rightarrow> scan_versions (listdir d))
         in Inr (if versions \<noteq> [] then Some (py_max versions) else None)))"

section \<open>training/train\_baseline.py: save\_model; api/model.py: load\_model\_and\_vectorizer\<close>

definition save_model :: "'a \<Rightarrow> 'a \<Rightarrow> int \<Rightarrow> 'a directory option \<Rightarrow> 'a directory" where
  "save_model model vectorizer version dir =
     write_file (vectorizer_path version) (Joblib vectorizer)
       (write_file (model_path version) (Joblib model) (makedirs dir))"

definition load_model_and_vectorizer :: "int \<Rightarrow> 'a directory option \<Rightarrow> py_exception + ('a \<times> 'a)" where
  "load_model_and_vectorizer version dir =
     (if \<not> path_exists dir (model_path version) then Inl FileNotFoundError
      else
        (case joblib_load dir (model_path version) of
           Inl e \<Rightarrow> Inl e
         | Inr model \<Rightarrow>
             (case joblib_load dir (vectorizer_path version) of
                Inl e \<Rightarrow> Inl e
              | Inr vectorizer \<Rightarrow> Inr (model, vectorizer))))"

section \<open>The feedback file and the disk\<close>

text \<open>
  An entry of \<open>feedback.json\<close>. The loader reads \<open>text\<close> and \<open>human_label\<close> with
  \<open>dict.get\<close>, so these two may be absent or null (\<open>None\<close>).
\<close>

record feedback_entry =
  fb_text :: "string option"
  fb_model_prediction :: string
  fb_human_label :: "string option"
  fb_timestamp :: string
  fb_model_version :: string

text \<open>
  The persisted state: the models directory, the feedback file (\<open>None\<close> when it does
  not exist) and the metrics directory, whose files hold metrics of type \<open>'x\<close>.
\<close>

record ('a, 'x) disk =
  models_dir :: "'a directory option"
  feedback_file :: "feedback_entry list option"
  metrics_dir :: "(string \<times> 'x) list option"

section \<open>training/retrain\_with\_feedback.py: load\_feedback\<close>

fun feedback_pairs :: "feedback_entry list \<Rightarrow> (string \<times> string) list" where
  "feedback_pairs [] = []"
| "feedback_pairs (entry # rest) =
     (let text = (case fb_text entry of None \<Rightarrow> '''' | Some t \<Rightarrow> t);
          human_label = fb_human_label entry
      in if text \<noteq> [] \<and> human_label \<noteq> None
         then (text, the human_label) # feedback_pairs rest
         else feedback_pairs rest)"

definition load_feedback :: "feedback_entry list option \<Rightarrow> (string \<times> string) list" where
  "load_feedback feedback_path =
     (case feedback_path of None \<Rightarrow> [] | Some feedback_data \<Rightarrow> feedback_pairs feedback_data)"

text \<open>
  A training label is a Python value: the corpus gives integer ids, the feedback file
  gives the label names that the API stored.
\<close>

datatype label = Label_id int | Label_name string

definition ag_news_label_names :: "string list" where
  "ag_news_label_names = [''World'', ''Sports'', ''Business'', ''Sci/Tech'']"

section \<open>evaluation/metrics.py: save\_metrics, load\_metrics\<close>

definition save_metrics :: "'x \<Rightarrow> int \<Rightarrow> (string \<times> 'x) list option \<Rightarrow> (string \<times> 'x) list" where
  "save_metrics metrics version dir =
     write_file (metrics_path version) metrics (makedirs dir)"

definition load_metrics :: "int \<Rightarrow> (string \<times> 'x) list option \<Rightarrow> 'x option" where
  "load_metrics version dir =
     (if \<not> path_exists dir (metrics_path version) then None
      else map_of (makedirs dir) (metrics_path version))"

section \<open>The training scripts\<close>

text \<open>
  What the scripts take from outside: the data set (loaded, or an exception), the
  training and evaluation with scikit-learn in \<open>train_baseline_model\<close> and
  \<open>retrain_model\<close> (the classifier, the vectorizer and the metrics, or an exception),
  and whether each write of the retraining commit fails. A failed write raises
  \<open>OSError\<close> and leaves the file as it was.
\<close>

datatype write_step = Dump_model | Dump_vectorizer | Save_metrics | Write_pointer

record ('a, 'x) environment =
  load_dataset :: "py_exception + (string list \<times> int list \<times> string list \<times> int list)"
  train_baseline_model ::
    "string list \<Rightarrow> int list \<Rightarrow> string list \<Rightarrow> int list \<Rightarrow> string list
       \<Rightarrow> py_exception + ('a \<times> 'a \<times> 'x)"
  retrain_model ::
    "string list \<Rightarrow> label list \<Rightarrow> string list \<Rightarrow> int list \<Rightarrow> string list \<Rightarrow> 'a option
       \<Rightarrow> py_exception + ('a \<times> 'a \<times> 'x)"
  write_fails :: "write_step \<Rightarrow> bool"

datatype outcome = Completed int | No_baseline_model | Raised py_exception

text \<open>
  \<open>main\<close> of train\_baseline.py: version 1 is saved, then its metrics, then the label
  names. It writes no \<open>current_version.txt\<close>.
\<close>

definition train_baseline_main ::
  "('a, 'x) environment \<Rightarrow> ('a, 'x) disk \<Rightarrow> outcome \<times> ('a, 'x) disk" where
  "train_baseline_main env disk =
     (case load_dataset env of
        Inl e \<Rightarrow> (Raised e, disk)
      | Inr (train_texts, train_labels, test_texts, test_labels) \<Rightarrow>
          (case train_baseline_model env train_texts train_labels test_texts test_labels
                  ag_news_label_names of
             Inl e \<Rightarrow> (Raised e, disk)
           | Inr (model, vectorizer, metrics) \<Rightarrow>
               (let disk1 = disk\<lparr>models_dir := Some (save_model model vectorizer 1 (models_dir disk))\<rparr>;
                    disk2 = disk1\<lparr>metrics_dir := Some (save_metrics metrics 1 (metrics_dir disk1))\<rparr>;
                    disk3 = disk2\<lparr>models_dir :=
                      Some (write_file ''label_names.json'' (Json_labels ag_news_label_names)
                              (makedirs (models_dir disk2)))\<rparr>
                in (Completed 1, disk3))))"

text \<open>
  \<open>main\<close> of retrain\_with\_feedback.py, in three parts: the load of the current
  version's vectorizer when its file exists, the writes at the end of the run, and the
  run itself. The summary printed after the writes is left out.
\<close>

definition load_existing_vectorizer :: "'a directory option \<Rightarrow> int \<Rightarrow> py_exception + 'a option" where
  "load_existing_vectorizer dir current_version =
     (if path_exists dir (vectorizer_path current_version) then
        (case joblib_load dir (vectorizer_path current_version) of
           Inl e \<Rightarrow> Inl e
         | Inr vectorizer \<Rightarrow> Inr (Some vectorizer))
      else Inr None)"

definition save_new_version ::
  "('a, 'x) environment \<Rightarrow> 'a \<Rightarrow> 'a \<Rightarrow> 'x \<Rightarrow> int \<Rightarrow> ('a, 'x) disk \<Rightarrow> outcome \<times> ('a, 'x) disk" where
  "save_new_version env model vectorizer metrics next_version disk =
     (let disk0 = disk\<lparr>models_dir := Some (makedirs (models_dir disk))\<rparr> in
      if write_fails env Dump_model then (Raised OSError, disk0)
      else
        let disk1 = disk0\<lparr>models_dir :=
              Some (write_file (model_path next_version) (Joblib model) (makedirs (models_dir disk0)))\<rparr> in
        if write_fails env Dump_vectorizer then (Raised OSError, disk1)
        else
          let disk2 = disk1\<lparr>models_dir :=
                Some (write_file (vectorizer_path next_version) (Joblib vectorizer)
                        (makedirs (models_dir disk1)))\<rparr>;
              disk3 = disk2\<lparr>metrics_dir := Some (makedirs (metrics_dir disk2))\<rparr> in
          if write_fails env Save_metrics then (Raised OSError, disk3)
          else
            let disk4 = disk3\<lparr>metrics_dir :=
                  Some (save_metrics metrics next_version (metrics_dir disk3))\<rparr> in
            if write_fails env Write_pointer then (Raised OSError, disk4)
            else
              (Completed next_version,
               disk4\<lparr>models_dir :=
                 Some (write_file ''current_version.txt'' (Text (str_int next_version))
                         (makedirs (models_dir disk4)))\<rparr>))"

definition retrain_main ::
  "('a, 'x) environment \<Rightarrow> pyfloat \<Rightarrow> ('a, 'x) disk \<Rightarrow> outcome \<times> ('a, 'x) disk" where
  "retrain_main env feedback_weight disk =
     (let current_version = retrain_get_current_model_version (models_dir disk) in
      if current_version = 0 then (No_baseline_model, disk)
      else
        let next_version = current_version + 1 in
        (case load_dataset env of
           Inl e \<Rightarrow> (Raised e, disk)
         | Inr (train_texts, train_labels, test_texts, test_labels) \<Rightarrow>
             (let feedback_samples =
                    map (\<lambda>(text, human_label). (text, Label_name human_label))
                      (load_feedback (feedback_file disk))
              in case combine_datasets train_texts (map Label_id train_labels) feedback_samples
                        feedback_weight of
                   Inl e \<Rightarrow> (Raised e, disk)
                 | Inr (combined_texts, combined_labels) \<Rightarrow>
                     (case load_existing_vectorizer (models_dir disk) current_version of
                        Inl e \<Rightarrow> (Raised e, disk)
                      | Inr vectorizer \<Rightarrow>
                          (case retrain_model env combined_texts combined_labels test_texts
                                  test_labels ag_news_label_names vectorizer of
                             Inl e \<Rightarrow> (Raised e, disk)
                           | Inr (model, new_vectorizer, metrics) \<Rightarrow>
                               save_new_version env model new_vectorizer metrics next_version
                                 disk)))))"

section \<open>evaluation/metrics.py\<close>

text \<open>
  Modelled from the spec: scikit-learn's \<open>confusion_matrix\<close> and
  \<open>precision_recall_fscore_support\<close> are library functions that the repository calls
  and does not contain. The spec gives the confusion matrix as the square matrix of
  size label count with the true label as row and the predicted label as column, in
  the order of the label schema; the support of a label is, as the library documents
  it, the number of samples whose true label it is. The two definitions below follow that, for labels
  given as integer ids and the call \<open>labels=range(n)\<close>, \<open>zero_division=0\<close> that
  \<open>calculate_metrics\<close> makes: entry \<open>(i, j)\<close> counts the samples with true label \<open>i\<close>
  and predicted label \<open>j\<close>; precision, recall and F1 of label \<open>i\<close> are the usual
  quotients of the counts, and 0 where the denominator is 0. Both raise \<open>ValueError\<close>
  when the two label lists differ in length; \<open>confusion_matrix\<close> also raises when
  there is no label at all, or when no true label is one of the labels asked for.
  The quotients are real numbers here; the library returns them rounded to floats.
\<close>

definition count_pairs :: "int list \<Rightarrow> int list \<Rightarrow> int \<Rightarrow> int \<Rightarrow> nat" where
  "count_pairs y_true y_pred i j =
     length (filter (\<lambda>(t, p). t = i \<and> p = j) (zip y_true y_pred))"

definition count_label :: "int list \<Rightarrow> int \<Rightarrow> nat" where
  "count_label ys i = length (filter (\<lambda>y. y = i) ys)"

definition confusion_matrix :: "int list \<Rightarrow> int list \<Rightarrow> nat \<Rightarrow> py_exception + nat list list" where
  "confusion_matrix y_true y_pred n =
     (if length y_true \<noteq> length y_pred then Inl ValueError
      else if n = 0 then Inl ValueError
      else if y_true \<noteq> [] \<and> \<not> (\<exists>t\<in>set y_true. 0 \<le> t \<and> t < int n) then Inl ValueError
      else Inr (map (\<lambda>i. map (\<lambda>j. count_pairs y_true y_pred (int i) (int j)) [0..<n]) [0..<n]))"

definition quotient_or_zero :: "nat \<Rightarrow> nat \<Rightarrow> real" where
  "quotient_or_zero a b = (if b = 0 then 0 else real a / real b)"

definition precision_recall_fscore_support ::
  "int list \<Rightarrow> int list \<Rightarrow> nat
     \<Rightarrow> py_exception + (real list \<times> real list \<times> real list \<times> nat list)" where
  "precision_recall_fscore_support y_true y_pred n =
     (if length y_true \<noteq> length y_pred then Inl ValueError
      else
        let tp_sum = (\<lambda>i. count_pairs y_true y_pred (int i) (int i));
            pred_sum = (\<lambda>i. count_label y_pred (int i));
            true_sum = (\<lambda>i. count_label y_true (int i))
        in Inr (map (\<lambda>i. quotient_or_zero (tp_sum i) (pred_sum i)) [0..<n],
                map (\<lambda>i. quotient_or_zero (tp_sum i) (true_sum i)) [0..<n],
                map (\<lambda>i. quotient_or_zero (2 * tp_sum i) (true_sum i + pred_sum i)) [0..<n],
                map true_sum [0..<n]))"

text \<open>
  The metrics dictionary. \<open>per_class\<close> is a Python dict filled in the order of
  \<open>label_names\<close>: an association list in which a repeated key keeps its first
  position and takes the last value.
\<close>

record class_metrics =
  class_precision :: real
  class_recall :: real
  class_f1 :: real
  class_support :: nat

record metrics =
  metrics_accuracy :: pyfloat
  metrics_f1_macro :: pyfloat
  metrics_f1_weighted :: pyfloat
  metrics_per_class :: "(string \<times> class_metrics) list"
  metrics_confusion_matrix :: "nat list list"
  metrics_label_names :: "string list"

text \<open>
  \<open>calculate_metrics\<close>. The three summary scores (\<open>accuracy_score\<close> and the two
  \<open>f1_score\<close> calls, evaluated first) are floating-point values of the library and
  are taken as a parameter: the result of those calls, or the exception they raise.
\<close>

definition calculate_metrics ::
  "(py_exception + pyfloat \<times> pyfloat \<times> pyfloat) \<Rightarrow> int list \<Rightarrow> int list \<Rightarrow> string list
     \<Rightarrow> py_exception + metrics" where
  "calculate_metrics summary_scores y_true y_pred label_names =
     (case summary_scores of
        Inl e \<Rightarrow> Inl e
      | Inr (accuracy, f1_macro, f1_weighted) \<Rightarrow>
          (case precision_recall_fscore_support y_true y_pred (length label_names) of
             Inl e \<Rightarrow> Inl e
           | Inr (precision, recall, f1, support) \<Rightarrow>
               (case confusion_matrix y_true y_pred (length label_names) of
                  Inl e \<Rightarrow> Inl e
                | Inr cm \<Rightarrow>
                    Inr \<lparr>metrics_accuracy = accuracy,
                         metrics_f1_macro = f1_macro,
                         metrics_f1_weighted = f1_weighted,
                         metrics_per_class =
                           fold (\<lambda>(i, label). AList.update label
                                   \<lparr>class_precision = precision ! i, class_recall = recall ! i,
                                    class_f1 = f1 ! i, class_support = support ! i\<rparr>)
                             (enumerate 0 label_names) [],
                         metrics_confusion_matrix = cm,
                         metrics_label_names = label_names\<rparr>)))"

section \<open>api/main.py\<close>

text \<open>
  The detail of an \<open>HTTPException\<close>. An exception that an endpoint does not catch is
  answered by the framework with status 500.
\<close>

datatype http_detail =
    Text_cannot_be_empty
  | Human_label_cannot_be_empty
  | Model_not_available py_exception
  | Prediction_error py_exception
  | Internal_server_error py_exception

datatype http_exception = HTTPException nat http_detail

text \<open>The module's global variables for the loaded model.\<close>

record 'a server =
  current_model :: "'a option"
  current_vectorizer :: "'a option"
  current_version :: "int option"
  label_names :: "string list option"

text \<open>
  \<open>load_model\<close> assigns the globals one by one, so an exception leaves the ones
  assigned before it. It returns the exception raised, if any, and the globals.
\<close>

definition load_model ::
  "int option \<Rightarrow> 'a directory option \<Rightarrow> 'a server \<Rightarrow> py_exception option \<times> 'a server" where
  "load_model version dir server =
     (case (case version of
              Some v \<Rightarrow> Inr v
            | None \<Rightarrow>
                (case api_get_current_model_version dir of
                   Inl e \<Rightarrow> Inl e
                 | Inr None \<Rightarrow> Inl ValueError
                 | Inr (Some v) \<Rightarrow> Inr v)) of
        Inl e \<Rightarrow> (Some e, server)
      | Inr v \<Rightarrow>
          if \<not> path_exists dir (model_path v) then (Some FileNotFoundError, server)
          else
            (case joblib_load dir (model_path v) of
               Inl e \<Rightarrow> (Some e, server)
             | Inr model \<Rightarrow>
                 (let server1 = server\<lparr>current_model := Some model\<rparr> in
                  case joblib_load dir (vectorizer_path v) of
                    Inl e \<Rightarrow> (Some e, server1)
                  | Inr vectorizer \<Rightarrow>
                      (let server2 = server1\<lparr>current_vectorizer := Some vectorizer,
                                              current_version := Some v\<rparr> in
                       if path_exists dir ''label_names.json'' then
                         (case map_of (makedirs dir) ''label_names.json'' of
                            Some (Json_labels names) \<Rightarrow> (None, server2\<lparr>label_names := Some names\<rparr>)
                          | _ \<Rightarrow> (Some ValueError, server2))
                       else (None, server2\<lparr>label_names := Some ag_news_label_names\<rparr>)))))"

text \<open>
  \<open>get_label_name\<close>. A Python list index below 0 counts from the end, and raises
  \<open>IndexError\<close> below \<open>-len\<close>.
\<close>

definition get_label_name :: "string list option \<Rightarrow> int \<Rightarrow> py_exception + string" where
  "get_label_name names label_id =
     (case names of
        None \<Rightarrow> Inr (''Label_'' @ str_int label_id)
      | Some ns \<Rightarrow>
          if ns \<noteq> [] \<and> label_id < int (length ns) then
            (if 0 \<le> label_id then Inr (ns ! nat label_id)
             else if - int (length ns) \<le> label_id then Inr (ns ! nat (int (length ns) + label_id))
             else Inl IndexError)
          else Inr (''Label_'' @ str_int label_id))"

record predict_response =
  prediction :: string
  confidence :: real
  model_version :: string

text \<open>
  \<open>predict\<close>. The classifier and the vectorizer are a parameter \<open>classify\<close>: from the
  two loaded artifacts and the text, the predicted label id and its probability, or
  the exception raised. The model is loaded first when none is loaded, and the text is
  checked after that.
\<close>

definition predict ::
  "('a \<Rightarrow> 'a \<Rightarrow> string \<Rightarrow> py_exception + int \<times> real) \<Rightarrow> string \<Rightarrow> 'a directory option
     \<Rightarrow> 'a server \<Rightarrow> (http_exception + predict_response) \<times> 'a server" where
  "predict classify request_text dir server =
     (case (if current_model server = None \<or> current_vectorizer server = None
            then load_model None dir server else (None, server)) of
        (Some e, server1) \<Rightarrow> (Inl (HTTPException 500 (Model_not_available e)), server1)
      | (None, server1) \<Rightarrow>
          if request_text = [] \<or> strip request_text = [] then
            (Inl (HTTPException 400 Text_cannot_be_empty), server1)
          else
            (case (current_model server1, current_vectorizer server1) of
               (Some model, Some vectorizer) \<Rightarrow>
                 (case classify model vectorizer request_text of
                    Inl e \<Rightarrow> (Inl (HTTPException 500 (Prediction_error e)), server1)
                  | Inr (prediction_id, probability) \<Rightarrow>
                      (case get_label_name (label_names server1) prediction_id of
                         Inl e \<Rightarrow> (Inl (HTTPException 500 (Prediction_error e)), server1)
                       | Inr prediction_name \<Rightarrow>
                           (Inr \<lparr>prediction = prediction_name, confidence = probability,
                                 model_version = ''v'' @
                                   (case current_version server1 of
                                      None \<Rightarrow> ''None'' | Some v \<Rightarrow> str_int v)\<rparr>,
                            server1)))
             | _ \<Rightarrow> (Inl (HTTPException 500 (Prediction_error AttributeError)), server1)))"

record feedback_request =
  request_text :: string
  request_model_prediction :: string
  request_human_label :: string

record feedback_response =
  message :: string
  timestamp :: string

text \<open>
  \<open>submit_feedback\<close>. \<open>now\<close> is \<open>datetime.utcnow().isoformat()\<close>. The text is checked
  for being empty or white space; the human label is checked for being empty only.
\<close>

definition submit_feedback ::
  "string \<Rightarrow> feedback_request \<Rightarrow> ('a, 'x) disk
     \<Rightarrow> (http_exception + feedback_response) \<times> ('a, 'x) disk" where
  "submit_feedback now request disk =
     (if request_text request = [] \<or> strip (request_text request) = [] then
        (Inl (HTTPException 400 Text_cannot_be_empty), disk)
      else if request_human_label request = [] then
        (Inl (HTTPException 400 Human_label_cannot_be_empty), disk)
      else
        (case api_get_current_model_version (models_dir disk) of
           Inl e \<Rightarrow> (Inl (HTTPException 500 (Internal_server_error e)), disk)
         | Inr found \<Rightarrow>
             (let version = (case found of None \<Rightarrow> 1 | Some v \<Rightarrow> v);
                  feedback_entry =
                    \<lparr>fb_text = Some (request_text request),
                     fb_model_prediction = request_model_prediction request,
                     fb_human_label = Some (request_human_label request),
                     fb_timestamp = now,
                     fb_model_version = ''v'' @ str_int version\<rparr>;
                  feedback_data = (case feedback_file disk of None \<Rightarrow> [] | Some data \<Rightarrow> data)
              in (Inr \<lparr>message = ''Feedback received successfully'',
                       timestamp = fb_timestamp feedback_entry\<rparr>,
                  disk\<lparr>feedback_file := Some (feedback_data @ [feedback_entry])\<rparr>))))"

chapter \<open>Properties\<close>

section \<open>Properties of combine\_datasets\<close>

lemma append_times_replicate:
  "append_times n text label (ts, ls) = (ts @ replicate n text, ls @ replicate n label)"
proof (induction n arbitrary: ts ls)
  case 0
  show ?case by simp
next
  case (Suc n)
  have "replicate (Suc n) text = [text] @ replicate n text"
    and "replicate (Suc n) label = [label] @ replicate n label"
    by simp_all
  then show ?case
    using Suc.IH [of "ts @ [text]" "ls @ [label]"] by simp
qed

lemma add_feedback_finite:
  "add_feedback fb (Finite x) (ts, ls) =
     Inr (ts @ concat (map (\<lambda>(t, l). replicate (nat (if 0 \<le> x then \<lfloor>x\<rfloor> else - \<lfloor>- x\<rfloor>)) t) fb),
          ls @ concat (map (\<lambda>(t, l). replicate (nat (if 0 \<le> x then \<lfloor>x\<rfloor> else - \<lfloor>- x\<rfloor>)) l) fb))"
proof (induction fb arbitrary: ts ls)
  case Nil
  show ?case by simp
next
  case (Cons p fb)
  obtain t l where p: "p = (t, l)" by (cases p)
  show ?case
    unfolding p
    by (simp add: int_of_float_def append_times_replicate Cons.IH)
qed

lemma combine_datasets_finite:
  "combine_datasets ts ls fb (Finite x) =
     Inr (ts @ concat (map (\<lambda>(t, l). replicate (nat (if 0 \<le> x then \<lfloor>x\<rfloor> else - \<lfloor>- x\<rfloor>)) t) fb),
          ls @ concat (map (\<lambda>(t, l). replicate (nat (if 0 \<le> x then \<lfloor>x\<rfloor> else - \<lfloor>- x\<rfloor>)) l) fb))"
  unfolding combine_datasets_def add_feedback_finite
  by (simp add: int_of_float_def)

lemma length_concat_replicate:
  "length (concat (map (\<lambda>(t, l). replicate n (f t l)) fb)) = n * length fb"
  by (induction fb) (auto simp: algebra_simps)


section \<open>Integers and their decimal strings\<close>

lemma digit_char_cases:
  assumes "d < 10"
  shows "d = 0 \<or> d = 1 \<or> d = 2 \<or> d = 3 \<or> d = 4 \<or> d = 5 \<or> d = 6 \<or> d = 7 \<or> d = 8 \<or> d = (9::nat)"
  using assms by arith

lemma digit_char_props:
  assumes "d < 10"
  shows "is_digit (digit_char d)" and "digit_val (digit_char d) = int d"
    and "\<not> is_space (digit_char d)" and "digit_char d \<noteq> CHR ''-''" and "digit_char d \<noteq> CHR ''+''"
    and "digit_char d \<noteq> CHR ''m''" and "digit_char d \<noteq> CHR ''.''"
  using digit_char_cases [OF assms]
  by (auto simp: digit_char_def is_digit_def digit_val_def is_space_def)

lemma digits_value_str_nat:
  "digits_value acc b (str_nat n @ cs) = digits_value (acc * 10 ^ length (str_nat n) + int n) True cs"
proof (induction n arbitrary: acc b cs rule: str_nat.induct)
  case (1 n)
  show ?case
  proof (cases "n < 10")
    case True
    then show ?thesis
      by (simp add: str_nat.simps [of n] digit_char_props mult.commute)
  next
    case False
    have m: "n mod 10 < 10" by simp
    have eq: "str_nat n = str_nat (n div 10) @ [digit_char (n mod 10)]"
      using False by (simp add: str_nat.simps [of n])
    have "digits_value acc b (str_nat n @ cs) =
          digits_value acc b (str_nat (n div 10) @ (digit_char (n mod 10) # cs))"
      by (simp add: eq)
    also have "\<dots> = digits_value (acc * 10 ^ length (str_nat (n div 10)) + int (n div 10)) True
          (digit_char (n mod 10) # cs)"
      using "1.IH" [OF False] by simp
    also have "\<dots> = digits_value (acc * 10 ^ length (str_nat n) + int n) True cs"
    proof -
      have "10 * (acc * 10 ^ length (str_nat (n div 10)) + int (n div 10)) + int (n mod 10)
            = acc * 10 ^ length (str_nat n) + int n"
      proof -
        have "int n = 10 * int (n div 10) + int (n mod 10)"
          by (metis mult_div_mod_eq of_nat_add of_nat_mult of_nat_numeral)
        then show ?thesis by (simp add: eq algebra_simps)
      qed
      then show ?thesis
        by (simp add: digit_char_props [OF m])
    qed
    finally show ?thesis .
  qed
qed

lemma str_nat_digits: "c \<in> set (str_nat n) \<Longrightarrow> \<exists>d<10. c = digit_char d"
proof (induction n rule: str_nat.induct)
  case (1 n)
  show ?case
  proof (cases "n < 10")
    case True
    with "1.prems" show ?thesis by (auto simp: str_nat.simps [of n])
  next
    case False
    from False "1.prems" have "c \<in> set (str_nat (n div 10)) \<or> c = digit_char (n mod 10)"
      by (auto simp: str_nat.simps [of n])
    then show ?thesis
    proof
      assume "c \<in> set (str_nat (n div 10))"
      with False "1.IH" show ?thesis by blast
    next
      assume "c = digit_char (n mod 10)"
      moreover have "n mod 10 < 10" by simp
      ultimately show ?thesis by blast
    qed
  qed
qed

lemma str_nat_not_Nil: "str_nat n \<noteq> []"
  by (subst str_nat.simps) simp

lemma str_int_chars:
  assumes "c \<in> set (str_int i)"
  shows "\<not> is_space c \<and> c \<noteq> CHR ''m'' \<and> c \<noteq> CHR ''.'' \<and> c \<noteq> CHR ''+''"
proof (cases "c = CHR ''-''")
  case True
  then show ?thesis by (simp add: is_space_def)
next
  case False
  with assms have "c \<in> set (str_nat (nat (- i))) \<or> c \<in> set (str_nat (nat i))"
    by (auto simp: str_int_def split: if_splits)
  then obtain d where "d < 10" "c = digit_char d"
    using str_nat_digits by blast
  then show ?thesis by (simp add: digit_char_props)
qed

lemma strip_no_space:
  assumes "\<forall>c\<in>set s. \<not> is_space c"
  shows "strip s = s"
proof -
  have keep: "dropWhile is_space xs = xs" if "\<forall>c\<in>set xs. \<not> is_space c" for xs
    using that by (cases xs) simp_all
  have "dropWhile is_space s = s"
    using assms by (rule keep)
  moreover have "dropWhile is_space (rev s) = rev s"
    using assms by (intro keep) simp
  ultimately show ?thesis by (simp add: strip_def)
qed

lemma digits_value_str_nat_all: "digits_value 0 False (str_nat n) = Some (int n)"
  using digits_value_str_nat [of 0 False n "[]"] by simp

lemma str_nat_hd:
  obtains d ds where "str_nat n = digit_char d # ds" and "d < 10"
proof -
  obtain c cs where eq: "str_nat n = c # cs"
    using str_nat_not_Nil [of n] by (cases "str_nat n") auto
  then have "c \<in> set (str_nat n)" by simp
  then obtain d where "d < 10" "c = digit_char d"
    using str_nat_digits by blast
  with eq that show ?thesis by blast
qed

lemma int_of_str_str_int: "int_of_str (str_int i) = Inr i"
proof -
  have st: "strip (str_int i) = str_int i"
    using str_int_chars by (intro strip_no_space) blast
  show ?thesis
  proof (cases "i < 0")
    case True
    then have eq: "str_int i = CHR ''-'' # str_nat (nat (- i))"
      by (simp add: str_int_def)
    from True show ?thesis
      using st unfolding eq
      by (simp add: int_of_str_def digits_value_str_nat_all)
  next
    case False
    obtain d ds where eq: "str_nat (nat i) = digit_char d # ds" and d: "d < 10"
      by (rule str_nat_hd)
    have "digits_value 0 False (digit_char d # ds) = Some (int (nat i))"
      using digits_value_str_nat_all [of "nat i"] by (simp only: eq)
    moreover from False have "str_int i = digit_char d # ds"
      by (simp add: str_int_def eq)
    ultimately show ?thesis
      using st False
      by (simp add: int_of_str_def digit_char_props [OF d] del: digits_value.simps)
  qed
qed

section \<open>The combined training set\<close>

text \<open>
  C6. For every original training set, every list of feedback samples and every
  non-negative integer \<open>feedback_weight\<close> (the float of value \<open>w\<close>), the combined training
  set is the original texts and labels followed by each feedback pair repeated \<open>w\<close>
  times, pair after pair; it has \<open>len(original) + w * len(feedback)\<close> rows. With weight 0
  it is the original training set, and two feedback records with weight 3 on a corpus of
  four rows give ten rows.
\<close>

theorem combine_datasets_weighted:
  "combine_datasets ts ls fb (Finite (real w)) =
     Inr (ts @ concat (map (\<lambda>(t, l). replicate w t) fb),
          ls @ concat (map (\<lambda>(t, l). replicate w l) fb))
   \<and> (\<exists>cts cls. combine_datasets ts ls fb (Finite (real w)) = Inr (cts, cls)
         \<and> length cts = length ts + w * length fb
         \<and> length cls = length ls + w * length fb)
   \<and> combine_datasets ts ls fb (Finite 0) = Inr (ts, ls)
   \<and> (\<forall>t1 t2 t3 t4 l1 l2 l3 l4 ta la tb lb.
         \<exists>cts cls. combine_datasets [t1, t2, t3, t4 :: 't] [l1, l2, l3, l4 :: 'l]
           [(ta, la), (tb, lb)] (Finite 3) = Inr (cts, cls)
         \<and> length cts = 10 \<and> length cls = 10)"
proof -
  have full: "combine_datasets ts ls fb (Finite (real w)) =
           Inr (ts @ concat (map (\<lambda>(t, l). replicate w t) fb),
                ls @ concat (map (\<lambda>(t, l). replicate w l) fb))"
    by (simp add: combine_datasets_finite)
  have size: "\<exists>cts cls. combine_datasets ts ls fb (Finite (real w)) = Inr (cts, cls)
           \<and> length cts = length ts + w * length fb
           \<and> length cls = length ls + w * length fb"
    unfolding full
    using length_concat_replicate [of w "\<lambda>t l. t" fb]
      length_concat_replicate [of w "\<lambda>t l. l" fb]
    by simp
  have zero: "combine_datasets ts ls fb (Finite 0) = Inr (ts, ls)"
    by (simp add: combine_datasets_finite)
  have scenario: "\<exists>cts cls. combine_datasets [t1, t2, t3, t4] [l1, l2, l3, l4]
             [(ta, la), (tb, lb)] (Finite 3) = Inr (cts, cls)
           \<and> length cts = 10 \<and> length cls = 10"
    for t1 t2 t3 t4 :: 't and l1 l2 l3 l4 :: 'l and ta la tb lb
    by (simp add: combine_datasets_finite)
  from full size zero scenario show ?thesis by blast
qed

theorem combine_datasets_weighted_witness:
  "combine_datasets [''a'', ''b'', ''c'', ''d''] [0, 1, 2, 3 :: int]
     [(''text A'', 1), (''text B'', 0)] (Finite (real 3)) =
   Inr ([''a'', ''b'', ''c'', ''d'', ''text A'', ''text A'', ''text A'',
         ''text B'', ''text B'', ''text B''],
        [0, 1, 2, 3, 1, 1, 1, 0, 0, 0])"
proof -
  have three: "replicate 3 x = [x, x, x]" for x :: 'a
    by (simp add: numeral_3_eq_3)
  from combine_datasets_weighted
    [of "[''a'', ''b'', ''c'', ''d'']" "[0, 1, 2, 3 :: int]" "[(''text A'', 1), (''text B'', 0)]" 3,
      THEN conjunct1]
  show ?thesis by (simp add: three)
qed

text \<open>
  C10. The weight is truncated to an integer before the repetition: for every
  non-negative real \<open>feedback_weight\<close>, each feedback pair contributes exactly
  \<open>floor(feedback_weight)\<close> copies, so a weight below 1 contributes no feedback row.
\<close>

theorem combine_datasets_truncates:
  assumes "0 \<le> x"
  shows "combine_datasets ts ls fb (Finite x) =
           Inr (ts @ concat (map (\<lambda>(t, l). replicate (nat \<lfloor>x\<rfloor>) t) fb),
                ls @ concat (map (\<lambda>(t, l). replicate (nat \<lfloor>x\<rfloor>) l) fb))
         \<and> (x < 1 \<longrightarrow> combine_datasets ts ls fb (Finite x) = Inr (ts, ls))"
proof -
  have full: "combine_datasets ts ls fb (Finite x) =
           Inr (ts @ concat (map (\<lambda>(t, l). replicate (nat \<lfloor>x\<rfloor>) t) fb),
                ls @ concat (map (\<lambda>(t, l). replicate (nat \<lfloor>x\<rfloor>) l) fb))"
    using assms by (simp add: combine_datasets_finite)
  have "combine_datasets ts ls fb (Finite x) = Inr (ts, ls)" if "x < 1"
  proof -
    from assms that have "\<lfloor>x\<rfloor> = 0" by linarith
    then show ?thesis unfolding full by (simp add: case_prod_beta)
  qed
  with full show ?thesis by blast
qed

theorem combine_datasets_truncates_witness:
  "(0::real) \<le> 0.5 \<and> (0.5::real) < 1 \<and>
   combine_datasets [''a''] [0::int] [(''text A'', 1)] (Finite 0.5) = Inr ([''a''], [0]) \<and>
   combine_datasets [''a''] [0::int] [(''text A'', 1)] (Finite 2.5) =
     Inr ([''a'', ''text A'', ''text A''], [0, 1, 1])"
proof -
  have h0: "(0::real) \<le> 0.5" and h1: "(0.5::real) < 1" and h2: "(0::real) \<le> 2.5"
    by simp_all
  have fl: "nat \<lfloor>2.5::real\<rfloor> = 2" by simp
  show ?thesis
    using combine_datasets_truncates [OF h0, of "[''a'']" "[0::int]" "[(''text A'', 1)]"]
      combine_datasets_truncates [OF h2, of "[''a'']" "[0::int]" "[(''text A'', 1)]"]
    unfolding fl
    by (simp add: numeral_2_eq_2)
qed

section \<open>File names and the version scan\<close>

lemma replace_skip:
  assumes "old \<noteq> []" and "hd old \<notin> set xs"
  shows "replace (xs @ ys) old new = xs @ replace ys old new"
  using assms
proof (induction xs)
  case Nil
  show ?case by (simp add: replace.simps)
next
  case (Cons x xs)
  from Cons.prems have "\<not> startswith (x # xs @ ys) old"
    by (cases old) (auto simp: startswith_def)
  with Cons show ?case by (simp add: replace.simps)
qed

lemma version_of_model_path:
  "replace (replace (model_path n) ''model_v'' '''') ''.joblib'' '''' = str_int n"
proof -
  have m: "CHR ''m'' \<notin> set (str_int n)" and dot: "CHR ''.'' \<notin> set (str_int n)"
    using str_int_chars [of _ n] by blast+
  have "replace (model_path n) ''model_v'' '''' = replace (str_int n @ ''.joblib'') ''model_v'' ''''"
    by (simp add: model_path_def startswith_def replace.simps)
  also have "\<dots> = str_int n @ replace ''.joblib'' ''model_v'' ''''"
    using m by (intro replace_skip) simp_all
  also have "\<dots> = str_int n @ ''.joblib''"
    by (simp add: startswith_def replace.simps)
  finally have first: "replace (model_path n) ''model_v'' '''' = str_int n @ ''.joblib''" .
  have "replace (str_int n @ ''.joblib'') ''.joblib'' '''' = str_int n @ replace ''.joblib'' ''.joblib'' ''''"
    using dot by (intro replace_skip) simp_all
  also have "\<dots> = str_int n"
    by (simp add: startswith_def replace.simps)
  finally show ?thesis by (simp add: first)
qed

lemma model_path_starts: "startswith (model_path n) ''model_v''"
  by (simp add: model_path_def startswith_def)

lemma model_path_ends: "endswith (model_path n) ''.joblib''"
  by (simp add: model_path_def endswith_def)

lemma scan_versions_finds:
  assumes "model_path n \<in> set names"
  shows "n \<in> set (scan_versions names)"
  using assms
proof (induction names)
  case Nil
  then show ?case by simp
next
  case (Cons f names)
  note scan_versions.simps [simp]
  show ?case
  proof (cases "f = model_path n")
    case True
    then show ?thesis
      by (simp add: model_path_starts model_path_ends version_of_model_path int_of_str_str_int)
  next
    case False
    with Cons have "n \<in> set (scan_versions names)" by simp
    then show ?thesis by (auto split: sum.splits)
  qed
qed

lemma py_max_Max: "xs \<noteq> [] \<Longrightarrow> py_max xs = Max (set xs)"
proof (cases xs)
  case Nil
  then show "xs \<noteq> [] \<Longrightarrow> ?thesis" by simp
next
  case (Cons x ys)
  have "Max (set (x # ys)) = fold max ys x"
    by (rule Max.set_eq_fold)
  with Cons show ?thesis by simp
qed

lemma str_int_1: "str_int 1 = ''1''"
  by (simp add: str_int_def str_nat.simps digit_char_def)

lemma model_path_1: "model_path 1 = ''model_v1.joblib''"
  by (simp add: model_path_def str_int_1)

lemma vectorizer_path_1: "vectorizer_path 1 = ''vectorizer_v1.joblib''"
  by (simp add: vectorizer_path_def str_int_1)

lemmas eval_strings =
  scan_versions.simps replace.simps startswith_def endswith_def int_of_str_def strip_def
  is_space_def is_digit_def digit_val_def

lemma model_path_neq_vectorizer_path: "model_path n \<noteq> vectorizer_path k"
  by (simp add: model_path_def vectorizer_path_def)

lemma model_path_neq_pointer: "model_path n \<noteq> ''current_version.txt''"
  by (simp add: model_path_def)

lemma vectorizer_path_neq_pointer: "vectorizer_path n \<noteq> ''current_version.txt''"
  by (simp add: vectorizer_path_def)

lemma map_of_write_file: "map_of (write_file name content d) = (map_of d)(name \<mapsto> content)"
  by (simp add: write_file_def update_conv')

lemma path_exists_iff: "path_exists (Some d) name \<longleftrightarrow> name \<in> set (listdir d)"
  by (simp add: path_exists_def listdir_def map_of_eq_None_iff)

lemma scan_versions_baseline:
  "scan_versions [''model_v1.joblib'', ''vectorizer_v1.joblib'', ''label_names.json''] = [1]"
  by (simp add: eval_strings)

lemma save_model_fresh:
  "save_model m v 1 None = [(''model_v1.joblib'', Joblib m), (''vectorizer_v1.joblib'', Joblib v)]"
  "save_model m v 1 (Some []) = [(''model_v1.joblib'', Joblib m), (''vectorizer_v1.joblib'', Joblib v)]"
  by (simp_all add: save_model_def write_file_def makedirs_def model_path_1 vectorizer_path_1)

lemma train_baseline_main_fresh:
  assumes "models_dir disk = None \<or> models_dir disk = Some []"
    and "train_baseline_main env disk = (Completed n, disk')"
  shows "\<exists>m v. models_dir disk' =
           Some [(''model_v1.joblib'', Joblib m), (''vectorizer_v1.joblib'', Joblib v),
                 (''label_names.json'', Json_labels ag_news_label_names)]"
  using assms
  by (auto simp: train_baseline_main_def Let_def save_model_fresh write_file_def makedirs_def
      split: sum.splits prod.splits)

lemma retrain_get_current_model_version_Max:
  "retrain_get_current_model_version (Some d) =
     (if scan_versions (listdir d) = [] then 0 else Max (set (scan_versions (listdir d))))"
  by (simp add: retrain_get_current_model_version_def Let_def py_max_Max)

lemma next_version_unused:
  "\<not> path_exists dir (model_path (retrain_get_current_model_version dir + 1))"
proof (cases dir)
  case None
  then show ?thesis by (simp add: path_exists_def)
next
  case (Some d)
  let ?vs = "scan_versions (listdir d)"
  let ?cur = "retrain_get_current_model_version (Some d)"
  show ?thesis
  proof
    assume "path_exists dir (model_path (retrain_get_current_model_version dir + 1))"
    with Some have "model_path (?cur + 1) \<in> set (listdir d)"
      by (simp add: path_exists_iff)
    then have mem: "?cur + 1 \<in> set ?vs"
      by (rule scan_versions_finds)
    then have ne: "?vs \<noteq> []" by auto
    then have "?cur = Max (set ?vs)"
      by (simp add: retrain_get_current_model_version_Max)
    moreover from mem have "?cur + 1 \<le> Max (set ?vs)" by simp
    ultimately show False by simp
  qed
qed

section \<open>Resolving the current version\<close>

text \<open>
  C8 (as stated). The claim gives one resolution rule for the current version. The
  retraining script's own \<open>get_current_model_version\<close> does not follow it: with the
  pointer set to 1 and classifiers stored for versions 1 and 2, the serving layer
  resolves to 1, the pointer value, while the retraining script resolves to 2.
\<close>

theorem get_current_model_version_counterexample:
  "api_get_current_model_version
     (Some [(''current_version.txt'', Text ''1''),
            (''model_v1.joblib'', Joblib (0::nat)),
            (''model_v2.joblib'', Joblib (0::nat))]) = Inr (Some 1)
   \<and> retrain_get_current_model_version
     (Some [(''current_version.txt'', Text ''1''),
            (''model_v1.joblib'', Joblib (0::nat)),
            (''model_v2.joblib'', Joblib (0::nat))]) = 2"
  by code_simp

text \<open>
  C8 (amended). The serving layer's \<open>get_current_model_version\<close> returns the value of
  the pointer file whenever that file is present and holds an integer; when the file is
  absent it returns the maximum version id found by scanning the stored classifier
  files, and \<open>None\<close> when the scan finds none. The retraining script's
  \<open>get_current_model_version\<close> never reads the pointer: it returns the maximum scanned id,
  and 0 when the scan finds none. Every stored file \<open>model_v<n>.joblib\<close> is found by the
  scan. With an empty registry the serving layer returns \<open>None\<close> and the retraining
  script 0; after a baseline training run on an empty registry both return 1.
\<close>

theorem get_current_model_version_resolves:
  fixes d :: "'a directory" and env :: "('a, 'x) environment"
  shows
    "(\<forall>s v. map_of d ''current_version.txt'' = Some (Text s) \<and> int_of_str (strip s) = Inr v
        \<longrightarrow> api_get_current_model_version (Some d) = Inr (Some v))
     \<and> (map_of d ''current_version.txt'' = None
        \<longrightarrow> api_get_current_model_version (Some d) =
              Inr (if scan_versions (listdir d) = [] then None
                   else Some (Max (set (scan_versions (listdir d))))))
     \<and> retrain_get_current_model_version (Some d) =
          (if scan_versions (listdir d) = [] then 0 else Max (set (scan_versions (listdir d))))
     \<and> (\<forall>n. model_path n \<in> set (listdir d) \<longrightarrow> n \<in> set (scan_versions (listdir d)))
     \<and> api_get_current_model_version (None :: 'a directory option) = Inr None
     \<and> api_get_current_model_version (Some ([] :: 'a directory)) = Inr None
     \<and> retrain_get_current_model_version (None :: 'a directory option) = 0
     \<and> retrain_get_current_model_version (Some ([] :: 'a directory)) = 0
     \<and> (\<forall>disk disk' n.
           (models_dir disk = None \<or> models_dir disk = Some [])
           \<and> train_baseline_main env disk = (Completed n, disk')
           \<longrightarrow> n = 1 \<and> api_get_current_model_version (models_dir disk') = Inr (Some 1)
               \<and> retrain_get_current_model_version (models_dir disk') = 1)"
proof -
  have pointer: "\<forall>s v. map_of d ''current_version.txt'' = Some (Text s) \<and> int_of_str (strip s) = Inr v
        \<longrightarrow> api_get_current_model_version (Some d) = Inr (Some v)"
    by (simp add: api_get_current_model_version_def path_exists_def makedirs_def)
  have scan: "map_of d ''current_version.txt'' = None
        \<longrightarrow> api_get_current_model_version (Some d) =
              Inr (if scan_versions (listdir d) = [] then None
                   else Some (Max (set (scan_versions (listdir d)))))"
    by (simp add: api_get_current_model_version_def path_exists_def Let_def py_max_Max)
  have retrain: "retrain_get_current_model_version (Some d) =
          (if scan_versions (listdir d) = [] then 0 else Max (set (scan_versions (listdir d))))"
    by (rule retrain_get_current_model_version_Max)
  have finds: "\<forall>n. model_path n \<in> set (listdir d) \<longrightarrow> n \<in> set (scan_versions (listdir d))"
    using scan_versions_finds by blast
  have empty1: "api_get_current_model_version (None :: 'a directory option) = Inr None"
    by (simp add: api_get_current_model_version_def path_exists_def)
  have empty2: "api_get_current_model_version (Some ([] :: 'a directory)) = Inr None"
    by (simp add: api_get_current_model_version_def path_exists_def listdir_def
        scan_versions.simps)
  have empty3: "retrain_get_current_model_version (None :: 'a directory option) = 0"
    by (simp add: retrain_get_current_model_version_def)
  have empty4: "retrain_get_current_model_version (Some ([] :: 'a directory)) = 0"
    by (simp add: retrain_get_current_model_version_def listdir_def scan_versions.simps)
  have baseline: "\<forall>disk disk' n.
           (models_dir disk = None \<or> models_dir disk = Some [])
           \<and> train_baseline_main env disk = (Completed n, disk')
           \<longrightarrow> n = 1 \<and> api_get_current_model_version (models_dir disk') = Inr (Some 1)
               \<and> retrain_get_current_model_version (models_dir disk') = 1"
  proof (intro allI impI, elim conjE)
    fix disk disk' :: "('a, 'x) disk" and n
    assume fresh: "models_dir disk = None \<or> models_dir disk = Some []"
      and run: "train_baseline_main env disk = (Completed n, disk')"
    from fresh run obtain m v where dir: "models_dir disk' =
        Some [(''model_v1.joblib'', Joblib m), (''vectorizer_v1.joblib'', Joblib v),
              (''label_names.json'', Json_labels ag_news_label_names)]"
      using train_baseline_main_fresh by blast
    have names: "listdir [(''model_v1.joblib'', Joblib m), (''vectorizer_v1.joblib'', Joblib v),
              (''label_names.json'', Json_labels ag_news_label_names)] =
        [''model_v1.joblib'', ''vectorizer_v1.joblib'', ''label_names.json'']"
      by (simp add: listdir_def)
    from run have "n = 1"
      by (auto simp: train_baseline_main_def Let_def split: sum.splits prod.splits)
    then show "n = 1 \<and> api_get_current_model_version (models_dir disk') = Inr (Some 1)
               \<and> retrain_get_current_model_version (models_dir disk') = 1"
      unfolding dir
      by (simp add: api_get_current_model_version_def retrain_get_current_model_version_def
          path_exists_def names scan_versions_baseline)
  qed
  show ?thesis
    by (intro conjI; fact)
qed

theorem get_current_model_version_resolves_witness:
  "map_of [(''current_version.txt'', Text ''2''), (''model_v1.joblib'', Joblib (0::nat))]
     ''current_version.txt'' = Some (Text ''2'')
   \<and> int_of_str (strip ''2'') = Inr 2
   \<and> api_get_current_model_version
        (Some [(''current_version.txt'', Text ''2''), (''model_v1.joblib'', Joblib (0::nat))]) =
       Inr (Some 2)
   \<and> map_of [(''model_v1.joblib'', Joblib (0::nat)), (''model_v3.joblib'', Joblib 0)]
        ''current_version.txt'' = None
   \<and> api_get_current_model_version
        (Some [(''model_v1.joblib'', Joblib (0::nat)), (''model_v3.joblib'', Joblib 0)]) =
       Inr (Some 3)"
proof -
  have h1: "map_of [(''current_version.txt'', Text ''2''), (''model_v1.joblib'', Joblib (0::nat))]
      ''current_version.txt'' = Some (Text ''2'')"
    by simp
  have h2: "int_of_str (strip ''2'') = Inr 2"
    by code_simp
  have h3: "map_of [(''model_v1.joblib'', Joblib (0::nat)), (''model_v3.joblib'', Joblib 0)]
      ''current_version.txt'' = None"
    by simp
  have sc: "scan_versions (listdir [(''model_v1.joblib'', Joblib (0::nat)),
      (''model_v3.joblib'', Joblib 0)]) = [1, 3]"
    by code_simp
  have r1: "api_get_current_model_version
      (Some [(''current_version.txt'', Text ''2''), (''model_v1.joblib'', Joblib (0::nat))]) =
      Inr (Some 2)"
    using get_current_model_version_resolves
      [of "[(''current_version.txt'', Text ''2''), (''model_v1.joblib'', Joblib (0::nat))]",
        THEN conjunct1, rule_format, of "''2''" 2] h1 h2
    by blast
  have r2: "api_get_current_model_version
      (Some [(''model_v1.joblib'', Joblib (0::nat)), (''model_v3.joblib'', Joblib 0)]) =
      Inr (Some 3)"
    using get_current_model_version_resolves
      [of "[(''model_v1.joblib'', Joblib (0::nat)), (''model_v3.joblib'', Joblib 0)]",
        THEN conjunct2, THEN conjunct1, rule_format, OF h3]
    unfolding sc by simp
  from h1 h2 h3 r1 r2 show ?thesis by blast
qed

section \<open>Registering a version\<close>

text \<open>
  C4 (as stated). The claim says that registering an id that already has artifacts fails
  with \<open>VersionConflict\<close> and leaves the original artifacts loadable. \<open>save_model\<close> of
  the baseline script, run a second time for version 1, does not fail, and loading
  version 1 afterwards returns the second run's artifacts, not the original ones.
\<close>

theorem save_model_counterexample:
  "load_model_and_vectorizer 1 (Some (save_model (10::nat) 11 1 None)) = Inr (10, 11)
   \<and> load_model_and_vectorizer 1
        (Some (save_model (20::nat) 21 1 (Some (save_model 10 11 1 None)))) = Inr (20, 21)"
  by code_simp

text \<open>
  C4 (amended). Registering a version id makes no check for existing artifacts and has
  no \<open>VersionConflict\<close> failure: \<open>save_model\<close>, and the save step of a retraining run
  when no write fails, write the classifier and the vectorizer of the id whether or not
  they are already stored, and loading the id afterwards returns the artifacts just
  written. The id that a retraining run registers, the maximum scanned id plus one, has
  no stored classifier file.
\<close>

theorem save_model_replaces:
  "load_model_and_vectorizer n (Some (save_model m v n dir)) = Inr (m, v)
   \<and> ((\<forall>step. \<not> write_fails env step) \<longrightarrow>
        fst (save_new_version env m v metrics n disk) = Completed n
        \<and> load_model_and_vectorizer n
             (models_dir (snd (save_new_version env m v metrics n disk))) = Inr (m, v))
   \<and> \<not> path_exists dir (model_path (retrain_get_current_model_version dir + 1))"
proof -
  have saved: "load_model_and_vectorizer n (Some (save_model m v n dir)) = Inr (m, v)"
    by (simp add: load_model_and_vectorizer_def save_model_def path_exists_def joblib_load_def
        map_of_write_file model_path_neq_vectorizer_path)
  have committed: "(\<forall>step. \<not> write_fails env step) \<longrightarrow>
        fst (save_new_version env m v metrics n disk) = Completed n
        \<and> load_model_and_vectorizer n
             (models_dir (snd (save_new_version env m v metrics n disk))) = Inr (m, v)"
    by (simp add: save_new_version_def Let_def load_model_and_vectorizer_def path_exists_def
        joblib_load_def makedirs_def map_of_write_file model_path_neq_vectorizer_path
        model_path_neq_pointer vectorizer_path_neq_pointer)
  have unused: "\<not> path_exists dir (model_path (retrain_get_current_model_version dir + 1))"
    by (rule next_version_unused)
  show ?thesis
    by (intro conjI; fact)
qed

theorem save_model_replaces_witness:
  "load_model_and_vectorizer 1
     (Some (save_model (20::nat) 21 1
        (Some [(''model_v1.joblib'', Joblib 10), (''vectorizer_v1.joblib'', Joblib 11)]))) =
     Inr (20, 21)
   \<and> \<not> path_exists (Some [(''model_v1.joblib'', Joblib (10::nat)), (''model_v2.joblib'', Joblib 12)])
        ''model_v3.joblib''"
proof -
  have cur: "retrain_get_current_model_version
      (Some [(''model_v1.joblib'', Joblib (10::nat)), (''model_v2.joblib'', Joblib 12)]) = 2"
    by code_simp
  have name: "model_path (2 + 1) = ''model_v3.joblib''"
    by code_simp
  have a: "load_model_and_vectorizer 1
     (Some (save_model (20::nat) 21 1
        (Some [(''model_v1.joblib'', Joblib 10), (''vectorizer_v1.joblib'', Joblib 11)]))) =
     Inr (20, 21)"
    by (rule save_model_replaces [THEN conjunct1])
  have b: "\<not> path_exists (Some [(''model_v1.joblib'', Joblib (10::nat)), (''model_v2.joblib'', Joblib 12)])
        ''model_v3.joblib''"
    using save_model_replaces [where dir =
      "Some [(''model_v1.joblib'', Joblib (10::nat)), (''model_v2.joblib'', Joblib 12)]",
      THEN conjunct2, THEN conjunct2]
    unfolding cur name .
  from a b show ?thesis by (rule conjI)
qed

section \<open>The retraining run\<close>

lemma strip_str_int: "strip (str_int n) = str_int n"
  using str_int_chars by (intro strip_no_space) blast

lemmas path_distinct =
  model_path_neq_vectorizer_path model_path_neq_vectorizer_path [symmetric]
  model_path_neq_pointer model_path_neq_pointer [symmetric]
  vectorizer_path_neq_pointer vectorizer_path_neq_pointer [symmetric]

lemma retrain_main_cases:
  obtains
    (no_baseline) "retrain_get_current_model_version (models_dir disk) = 0"
      and "retrain_main env w disk = (No_baseline_model, disk)"
  | (raised) e where "retrain_get_current_model_version (models_dir disk) \<noteq> 0"
      and "retrain_main env w disk = (Raised e, disk)"
      and "load_dataset env = Inl e
        \<or> (\<exists>tt tl st sl. load_dataset env = Inr (tt, tl, st, sl)
              \<and> combine_datasets tt (map Label_id tl)
                    (map (\<lambda>(text, human_label). (text, Label_name human_label))
                       (load_feedback (feedback_file disk))) w = Inl e)
        \<or> load_existing_vectorizer (models_dir disk)
              (retrain_get_current_model_version (models_dir disk)) = Inl e
        \<or> (\<exists>ct cl st sl vec. retrain_model env ct cl st sl ag_news_label_names vec = Inl e)"
  | (commit) tt tl st sl ct cl vec model vectorizer metrics
    where "load_dataset env = Inr (tt, tl, st, sl)"
      and "combine_datasets tt (map Label_id tl)
             (map (\<lambda>(text, human_label). (text, Label_name human_label))
                (load_feedback (feedback_file disk))) w = Inr (ct, cl)"
      and "retrain_model env ct cl st sl ag_news_label_names vec = Inr (model, vectorizer, metrics)"
      and "retrain_main env w disk =
             save_new_version env model vectorizer metrics
               (retrain_get_current_model_version (models_dir disk) + 1) disk"
proof (cases "retrain_get_current_model_version (models_dir disk) = 0")
  case True
  then have "retrain_main env w disk = (No_baseline_model, disk)"
    by (simp add: retrain_main_def)
  with True show ?thesis by (rule no_baseline)
next
  case nz: False
  show ?thesis
  proof (cases "load_dataset env")
    case (Inl e)
    with nz have "retrain_main env w disk = (Raised e, disk)"
      by (simp add: retrain_main_def)
    with nz show ?thesis using Inl by (intro raised [of e]) simp_all
  next
    case (Inr corpus)
    obtain tt tl st sl where corpus: "load_dataset env = Inr (tt, tl, st, sl)"
      using Inr by (cases corpus) auto
    let ?fb = "map (\<lambda>(text, human_label). (text, Label_name human_label))
        (load_feedback (feedback_file disk))"
    show ?thesis
    proof (cases "combine_datasets tt (map Label_id tl) ?fb w")
      case (Inl e)
      with nz corpus have "retrain_main env w disk = (Raised e, disk)"
        by (simp add: retrain_main_def)
      with nz show ?thesis using corpus Inl by (intro raised [of e]) simp_all
    next
      case (Inr combined)
      obtain ct cl where comb: "combine_datasets tt (map Label_id tl) ?fb w = Inr (ct, cl)"
        using Inr by (cases combined) auto
      show ?thesis
      proof (cases "load_existing_vectorizer (models_dir disk)
          (retrain_get_current_model_version (models_dir disk))")
        case (Inl e)
        with nz corpus comb have "retrain_main env w disk = (Raised e, disk)"
          by (simp add: retrain_main_def)
        with nz show ?thesis using Inl by (intro raised [of e]) simp_all
      next
        case vec: (Inr vec)
        show ?thesis
        proof (cases "retrain_model env ct cl st sl ag_news_label_names vec")
          case (Inl e)
          with nz corpus comb vec have "retrain_main env w disk = (Raised e, disk)"
            by (simp add: retrain_main_def)
          with nz show ?thesis using Inl by (intro raised [of e]) blast+
        next
          case (Inr trained)
          obtain model vectorizer metrics
            where tr: "retrain_model env ct cl st sl ag_news_label_names vec =
              Inr (model, vectorizer, metrics)"
            using Inr by (cases trained) auto
          with nz corpus comb vec have "retrain_main env w disk =
              save_new_version env model vectorizer metrics
                (retrain_get_current_model_version (models_dir disk) + 1) disk"
            by (simp add: retrain_main_def)
          with corpus comb tr show ?thesis by (rule commit)
        qed
      qed
    qed
  qed
qed

lemma retrain_main_commit_or_unchanged:
  "(\<exists>model vectorizer metrics.
      retrain_main env w disk =
        save_new_version env model vectorizer metrics
          (retrain_get_current_model_version (models_dir disk) + 1) disk)
   \<or> snd (retrain_main env w disk) = disk"
proof (cases rule: retrain_main_cases [of disk env w])
  case no_baseline
  then show ?thesis by simp
next
  case (raised e)
  then show ?thesis by simp
next
  case (commit tt tl st sl ct cl vec model vectorizer metrics)
  then show ?thesis by blast
qed

lemma save_new_version_steps:
  "write_fails env Dump_model \<Longrightarrow>
     save_new_version env model vectorizer metrics n disk =
       (Raised OSError, disk\<lparr>models_dir := Some (makedirs (models_dir disk))\<rparr>)"
  "\<not> write_fails env Dump_model \<Longrightarrow> write_fails env Dump_vectorizer \<Longrightarrow>
     save_new_version env model vectorizer metrics n disk =
       (Raised OSError,
        disk\<lparr>models_dir := Some (write_file (model_path n) (Joblib model)
                 (makedirs (models_dir disk)))\<rparr>)"
  "\<not> write_fails env Dump_model \<Longrightarrow> \<not> write_fails env Dump_vectorizer \<Longrightarrow>
   write_fails env Save_metrics \<Longrightarrow>
     save_new_version env model vectorizer metrics n disk =
       (Raised OSError,
        disk\<lparr>models_dir := Some (save_model model vectorizer n (models_dir disk)),
             metrics_dir := Some (makedirs (metrics_dir disk))\<rparr>)"
  "\<not> write_fails env Dump_model \<Longrightarrow> \<not> write_fails env Dump_vectorizer \<Longrightarrow>
   \<not> write_fails env Save_metrics \<Longrightarrow> write_fails env Write_pointer \<Longrightarrow>
     save_new_version env model vectorizer metrics n disk =
       (Raised OSError,
        disk\<lparr>models_dir := Some (save_model model vectorizer n (models_dir disk)),
             metrics_dir := Some (save_metrics metrics n (metrics_dir disk))\<rparr>)"
  "\<not> write_fails env Dump_model \<Longrightarrow> \<not> write_fails env Dump_vectorizer \<Longrightarrow>
   \<not> write_fails env Save_metrics \<Longrightarrow> \<not> write_fails env Write_pointer \<Longrightarrow>
     save_new_version env model vectorizer metrics n disk =
       (Completed n,
        disk\<lparr>models_dir := Some (write_file ''current_version.txt'' (Text (str_int n))
                 (save_model model vectorizer n (models_dir disk))),
             metrics_dir := Some (save_metrics metrics n (metrics_dir disk))\<rparr>)"
  by (simp_all add: save_new_version_def Let_def save_model_def save_metrics_def makedirs_def)

lemma save_new_version_pointer:
  assumes "write_fails env Dump_model \<or> write_fails env Dump_vectorizer
      \<or> write_fails env Save_metrics \<or> write_fails env Write_pointer"
  shows "fst (save_new_version env model vectorizer metrics n disk) = Raised OSError
    \<and> map_of (makedirs (models_dir (snd (save_new_version env model vectorizer metrics n disk))))
        ''current_version.txt'' =
      map_of (makedirs (models_dir disk)) ''current_version.txt''"
proof (cases "write_fails env Dump_model")
  case True
  then show ?thesis
    by (simp add: save_new_version_steps makedirs_def)
next
  case dm: False
  show ?thesis
  proof (cases "write_fails env Dump_vectorizer")
    case True
    with dm show ?thesis
      by (simp add: save_new_version_steps makedirs_def map_of_write_file path_distinct)
  next
    case dv: False
    show ?thesis
    proof (cases "write_fails env Save_metrics")
      case True
      with dm dv show ?thesis
        by (simp add: save_new_version_steps save_model_def makedirs_def map_of_write_file
            path_distinct)
    next
      case False
      with dm dv assms show ?thesis
        by (simp add: save_new_version_steps save_model_def makedirs_def map_of_write_file
            path_distinct)
    qed
  qed
qed

lemma save_new_version_metrics_failed:
  assumes "write_fails env Dump_model \<or> write_fails env Dump_vectorizer
      \<or> write_fails env Save_metrics"
  shows "load_metrics n (metrics_dir (snd (save_new_version env model vectorizer metrics n disk))) =
      load_metrics n (metrics_dir disk)"
proof (cases "write_fails env Dump_model")
  case True
  then show ?thesis by (simp add: save_new_version_steps)
next
  case dm: False
  show ?thesis
  proof (cases "write_fails env Dump_vectorizer")
    case True
    with dm show ?thesis by (simp add: save_new_version_steps)
  next
    case False
    with dm assms show ?thesis
      by (simp add: save_new_version_steps load_metrics_def path_exists_def makedirs_def
          split: option.splits)
  qed
qed

lemma load_saved_model:
  "load_model_and_vectorizer n (Some (save_model m v n dir)) = Inr (m, v)"
  by (simp add: load_model_and_vectorizer_def save_model_def path_exists_def joblib_load_def
      map_of_write_file path_distinct)

lemma load_saved_model_pointer:
  "load_model_and_vectorizer n
     (Some (write_file ''current_version.txt'' c (save_model m v n dir))) = Inr (m, v)"
  by (simp add: load_model_and_vectorizer_def save_model_def path_exists_def joblib_load_def
      map_of_write_file path_distinct)

lemma save_new_version_registered:
  assumes "\<not> write_fails env Dump_model" and "\<not> write_fails env Dump_vectorizer"
  shows "load_model_and_vectorizer n
      (models_dir (snd (save_new_version env model vectorizer metrics n disk))) =
      Inr (model, vectorizer)"
proof (cases "write_fails env Save_metrics")
  case True
  with assms show ?thesis by (simp add: save_new_version_steps load_saved_model)
next
  case sm: False
  show ?thesis
  proof (cases "write_fails env Write_pointer")
    case True
    with assms sm show ?thesis by (simp add: save_new_version_steps load_saved_model)
  next
    case False
    with assms sm show ?thesis by (simp add: save_new_version_steps load_saved_model_pointer)
  qed
qed

lemma load_saved_metrics: "load_metrics n (Some (save_metrics metrics n dir)) = Some metrics"
  by (simp add: load_metrics_def save_metrics_def path_exists_def makedirs_def map_of_write_file)

lemma save_new_version_persisted:
  assumes "\<not> write_fails env Dump_model" and "\<not> write_fails env Dump_vectorizer"
    and "\<not> write_fails env Save_metrics"
  shows "load_metrics n (metrics_dir (snd (save_new_version env model vectorizer metrics n disk))) =
      Some metrics"
proof (cases "write_fails env Write_pointer")
  case True
  with assms show ?thesis by (simp add: save_new_version_steps load_saved_metrics)
next
  case False
  with assms show ?thesis by (simp add: save_new_version_steps load_saved_metrics)
qed

lemma save_new_version_promoted:
  assumes "\<not> write_fails env Dump_model" and "\<not> write_fails env Dump_vectorizer"
    and "\<not> write_fails env Save_metrics" and "\<not> write_fails env Write_pointer"
  shows "fst (save_new_version env model vectorizer metrics n disk) = Completed n
    \<and> api_get_current_model_version
        (models_dir (snd (save_new_version env model vectorizer metrics n disk))) = Inr (Some n)"
  using assms
  by (simp add: save_new_version_steps api_get_current_model_version_def path_exists_def
      makedirs_def map_of_write_file strip_str_int int_of_str_str_int)

text \<open>
  The writes of the commit, as the pointer file and the stored files show them.
\<close>

lemma retrain_commit_steps:
  "((\<exists>model vectorizer metrics.
       retrain_main env w disk =
         save_new_version env model vectorizer metrics
           (retrain_get_current_model_version (models_dir disk) + 1) disk)
     \<or> snd (retrain_main env w disk) = disk)
   \<and> (retrain_get_current_model_version (models_dir disk) = 0
        \<longrightarrow> retrain_main env w disk = (No_baseline_model, disk))
   \<and> (\<forall>e. load_dataset env = Inl e \<longrightarrow> snd (retrain_main env w disk) = disk)
   \<and> ((\<forall>a b c d e f. \<exists>err. retrain_model env a b c d e f = Inl err)
        \<longrightarrow> snd (retrain_main env w disk) = disk)
   \<and> (write_fails env Save_metrics
        \<longrightarrow> map_of (makedirs (models_dir (snd (retrain_main env w disk)))) ''current_version.txt'' =
            map_of (makedirs (models_dir disk)) ''current_version.txt'')
   \<and> (\<forall>model vectorizer metrics n d.
        (write_fails env Dump_model \<or> write_fails env Dump_vectorizer
           \<or> write_fails env Save_metrics \<or> write_fails env Write_pointer
         \<longrightarrow> fst (save_new_version env model vectorizer metrics n d) = Raised OSError
             \<and> map_of (makedirs (models_dir (snd (save_new_version env model vectorizer metrics n d))))
                  ''current_version.txt'' =
                map_of (makedirs (models_dir d)) ''current_version.txt'')
        \<and> (write_fails env Dump_model \<or> write_fails env Dump_vectorizer
           \<or> write_fails env Save_metrics
         \<longrightarrow> load_metrics n (metrics_dir (snd (save_new_version env model vectorizer metrics n d))) =
               load_metrics n (metrics_dir d))
        \<and> (\<not> write_fails env Dump_model \<and> \<not> write_fails env Dump_vectorizer
         \<longrightarrow> load_model_and_vectorizer n
               (models_dir (snd (save_new_version env model vectorizer metrics n d))) =
               Inr (model, vectorizer))
        \<and> (\<not> write_fails env Dump_model \<and> \<not> write_fails env Dump_vectorizer
           \<and> \<not> write_fails env Save_metrics
         \<longrightarrow> load_metrics n (metrics_dir (snd (save_new_version env model vectorizer metrics n d))) =
               Some metrics)
        \<and> (\<not> write_fails env Dump_model \<and> \<not> write_fails env Dump_vectorizer
           \<and> \<not> write_fails env Save_metrics \<and> \<not> write_fails env Write_pointer
         \<longrightarrow> fst (save_new_version env model vectorizer metrics n d) = Completed n
             \<and> api_get_current_model_version
                  (models_dir (snd (save_new_version env model vectorizer metrics n d))) =
                Inr (Some n)))"
proof -
  let ?run = "retrain_main env w disk"
  have reach: "(\<exists>model vectorizer metrics.
       ?run = save_new_version env model vectorizer metrics
           (retrain_get_current_model_version (models_dir disk) + 1) disk)
     \<or> snd ?run = disk"
    by (rule retrain_main_commit_or_unchanged)
  have no_baseline: "retrain_get_current_model_version (models_dir disk) = 0
        \<longrightarrow> ?run = (No_baseline_model, disk)"
    by (simp add: retrain_main_def)
  have no_corpus: "\<forall>e. load_dataset env = Inl e \<longrightarrow> snd ?run = disk"
  proof (intro allI impI)
    fix e
    assume failed: "load_dataset env = Inl e"
    show "snd ?run = disk"
    proof (cases rule: retrain_main_cases [of disk env w])
      case no_baseline
      then show ?thesis by simp
    next
      case (raised e')
      then show ?thesis by simp
    next
      case (commit tt tl st sl ct cl vec model vectorizer metrics)
      with failed show ?thesis by simp
    qed
  qed
  have no_training: "(\<forall>a b c d e f. \<exists>err. retrain_model env a b c d e f = Inl err)
        \<longrightarrow> snd ?run = disk"
  proof
    assume fails: "\<forall>a b c d e f. \<exists>err. retrain_model env a b c d e f = Inl err"
    have never: "retrain_model env a b c d e f \<noteq> Inr r" for a b c d e f r
      using fails by (metis sum.distinct(1))
    show "snd ?run = disk"
    proof (cases rule: retrain_main_cases [of disk env w])
      case no_baseline
      then show ?thesis by simp
    next
      case (raised e)
      then show ?thesis by simp
    next
      case (commit tt tl st sl ct cl vec model vectorizer metrics)
      with never show ?thesis by blast
    qed
  qed
  have not_promoted: "write_fails env Save_metrics
        \<longrightarrow> map_of (makedirs (models_dir (snd ?run))) ''current_version.txt'' =
            map_of (makedirs (models_dir disk)) ''current_version.txt''"
  proof
    assume failing: "write_fails env Save_metrics"
    from reach show "map_of (makedirs (models_dir (snd ?run))) ''current_version.txt'' =
        map_of (makedirs (models_dir disk)) ''current_version.txt''"
    proof (elim disjE exE)
      fix model vectorizer metrics
      assume eq: "?run = save_new_version env model vectorizer metrics
          (retrain_get_current_model_version (models_dir disk) + 1) disk"
      from failing show ?thesis
        unfolding eq
        by (intro save_new_version_pointer [THEN conjunct2]) simp
    next
      assume "snd ?run = disk"
      then show ?thesis by simp
    qed
  qed
  have c1: "write_fails env Dump_model \<or> write_fails env Dump_vectorizer
           \<or> write_fails env Save_metrics \<or> write_fails env Write_pointer
         \<longrightarrow> fst (save_new_version env model vectorizer metrics n d) = Raised OSError
             \<and> map_of (makedirs (models_dir (snd (save_new_version env model vectorizer metrics n d))))
                  ''current_version.txt'' =
                map_of (makedirs (models_dir d)) ''current_version.txt''"
    for model vectorizer metrics n d
    by (intro impI save_new_version_pointer)
  have c2: "write_fails env Dump_model \<or> write_fails env Dump_vectorizer
           \<or> write_fails env Save_metrics
         \<longrightarrow> load_metrics n (metrics_dir (snd (save_new_version env model vectorizer metrics n d))) =
               load_metrics n (metrics_dir d)"
    for model vectorizer metrics n d
    by (intro impI save_new_version_metrics_failed)
  have c3: "\<not> write_fails env Dump_model \<and> \<not> write_fails env Dump_vectorizer
         \<longrightarrow> load_model_and_vectorizer n
               (models_dir (snd (save_new_version env model vectorizer metrics n d))) =
               Inr (model, vectorizer)"
    for model vectorizer metrics n d
    by (intro impI save_new_version_registered) simp_all
  have c4: "\<not> write_fails env Dump_model \<and> \<not> write_fails env Dump_vectorizer
           \<and> \<not> write_fails env Save_metrics
         \<longrightarrow> load_metrics n (metrics_dir (snd (save_new_version env model vectorizer metrics n d))) =
               Some metrics"
    for model vectorizer metrics n d
    by (intro impI save_new_version_persisted) simp_all
  have c5: "\<not> write_fails env Dump_model \<and> \<not> write_fails env Dump_vectorizer
           \<and> \<not> write_fails env Save_metrics \<and> \<not> write_fails env Write_pointer
         \<longrightarrow> fst (save_new_version env model vectorizer metrics n d) = Completed n
             \<and> api_get_current_model_version
                  (models_dir (snd (save_new_version env model vectorizer metrics n d))) =
                Inr (Some n)"
    for model vectorizer metrics n d
    by (intro impI save_new_version_promoted) simp_all
  have commit: "\<forall>model vectorizer metrics n d.
        (write_fails env Dump_model \<or> write_fails env Dump_vectorizer
           \<or> write_fails env Save_metrics \<or> write_fails env Write_pointer
         \<longrightarrow> fst (save_new_version env model vectorizer metrics n d) = Raised OSError
             \<and> map_of (makedirs (models_dir (snd (save_new_version env model vectorizer metrics n d))))
                  ''current_version.txt'' =
                map_of (makedirs (models_dir d)) ''current_version.txt'')
        \<and> (write_fails env Dump_model \<or> write_fails env Dump_vectorizer
           \<or> write_fails env Save_metrics
         \<longrightarrow> load_metrics n (metrics_dir (snd (save_new_version env model vectorizer metrics n d))) =
               load_metrics n (metrics_dir d))
        \<and> (\<not> write_fails env Dump_model \<and> \<not> write_fails env Dump_vectorizer
         \<longrightarrow> load_model_and_vectorizer n
               (models_dir (snd (save_new_version env model vectorizer metrics n d))) =
               Inr (model, vectorizer))
        \<and> (\<not> write_fails env Dump_model \<and> \<not> write_fails env Dump_vectorizer
           \<and> \<not> write_fails env Save_metrics
         \<longrightarrow> load_metrics n (metrics_dir (snd (save_new_version env model vectorizer metrics n d))) =
               Some metrics)
        \<and> (\<not> write_fails env Dump_model \<and> \<not> write_fails env Dump_vectorizer
           \<and> \<not> write_fails env Save_metrics \<and> \<not> write_fails env Write_pointer
         \<longrightarrow> fst (save_new_version env model vectorizer metrics n d) = Completed n
             \<and> api_get_current_model_version
                  (models_dir (snd (save_new_version env model vectorizer metrics n d))) =
                Inr (Some n))"
    by (intro allI conjI) (rule c1 c2 c3 c4 c5)+
  show ?thesis
    by (intro conjI; fact)
qed

section \<open>Feedback in the retraining run\<close>

lemma feedback_pairs_filter:
  "feedback_pairs entries =
     map (\<lambda>e. (the (fb_text e), the (fb_human_label e)))
       (filter (\<lambda>e. fb_text e \<noteq> None \<and> fb_text e \<noteq> Some [] \<and> fb_human_label e \<noteq> None)
          entries)"
  by (induction entries) (auto simp: Let_def split: option.splits)

lemma combine_feedback_texts:
  "\<exists>cls. combine_datasets texts (map Label_id labels)
       (map (\<lambda>(text, human_label). (text, Label_name human_label)) pairs) (Finite x) =
     Inr (texts @ concat (map (\<lambda>(text, human_label).
            replicate (nat (if 0 \<le> x then \<lfloor>x\<rfloor> else - \<lfloor>- x\<rfloor>)) text) pairs), cls)
     \<and> length cls = length labels + nat (if 0 \<le> x then \<lfloor>x\<rfloor> else - \<lfloor>- x\<rfloor>) * length pairs"
proof -
  let ?k = "nat (if 0 \<le> x then \<lfloor>x\<rfloor> else - \<lfloor>- x\<rfloor>)"
  let ?fb = "map (\<lambda>(text, human_label). (text, Label_name human_label)) pairs"
  have texts: "concat (map (\<lambda>(t, l). replicate ?k t) ?fb) =
      concat (map (\<lambda>(text, human_label). replicate ?k text) pairs)"
    by (induction pairs) auto
  have len: "length (concat (map (\<lambda>(t, l). replicate ?k l) ?fb)) = ?k * length pairs"
    using length_concat_replicate [of ?k "\<lambda>t l. l" ?fb] by simp
  show ?thesis
    unfolding combine_datasets_finite texts
    using len by simp
qed

text \<open>
  C1 (as stated). The claim says that a feedback label is looked up in the label
  schema before the pair is added to the combined training set, and that a label
  outside the schema is a fatal \<open>UnknownLabel\<close>. With one stored record labelled
  \<open>Politics\<close>, which is not in the schema, \<open>load_feedback\<close> and \<open>combine_datasets\<close>
  return without failure, and the combined training set has the row with the label
  name \<open>Politics\<close> as it was stored, next to the corpus row with the label id 0.
\<close>

theorem combine_unknown_label_counterexample:
  "''Politics'' \<notin> set ag_news_label_names
   \<and> combine_datasets [''t''] (map Label_id [0])
        (map (\<lambda>(text, human_label). (text, Label_name human_label))
           (load_feedback (Some [\<lparr>fb_text = Some ''text A'', fb_model_prediction = ''World'',
              fb_human_label = Some ''Politics'', fb_timestamp = ''2024-01-01T00:00:00'',
              fb_model_version = ''v1''\<rparr>])))
        (Finite 1) =
       Inr ([''t'', ''text A''], [Label_id 0, Label_name ''Politics''])"
  by code_simp

text \<open>
  C1 (amended). During retraining the feedback loaded from the store is every stored
  record with a non-empty text and a present \<open>human_label\<close>, in stored order, whatever
  its label is; \<open>combine_datasets\<close> adds each loaded pair after the original rows,
  \<open>int(feedback_weight)\<close> times, with no lookup of its label in the label schema, and
  with a finite weight neither step fails. When there is a baseline, the corpus loads
  and the current vectorizer loads, the run hands these rows to the training step, and
  what the training step returns or raises decides the rest of the run.
\<close>

theorem retrain_feedback_unchecked:
  "load_feedback (Some entries) =
     map (\<lambda>e. (the (fb_text e), the (fb_human_label e)))
       (filter (\<lambda>e. fb_text e \<noteq> None \<and> fb_text e \<noteq> Some [] \<and> fb_human_label e \<noteq> None)
          entries)
   \<and> (\<exists>cls. combine_datasets train_texts (map Label_id train_labels)
         (map (\<lambda>(text, human_label). (text, Label_name human_label)) (load_feedback fb))
         (Finite x) =
       Inr (train_texts @ concat (map (\<lambda>(text, human_label).
              replicate (nat (if 0 \<le> x then \<lfloor>x\<rfloor> else - \<lfloor>- x\<rfloor>)) text) (load_feedback fb)),
            cls)
       \<and> length cls = length train_labels
            + nat (if 0 \<le> x then \<lfloor>x\<rfloor> else - \<lfloor>- x\<rfloor>) * length (load_feedback fb))
   \<and> (retrain_get_current_model_version (models_dir disk) \<noteq> 0
       \<and> load_dataset env = Inr (train_texts, train_labels, test_texts, test_labels)
       \<and> load_existing_vectorizer (models_dir disk)
             (retrain_get_current_model_version (models_dir disk)) = Inr vec
       \<longrightarrow> (\<exists>cls. length cls = length train_labels
                 + nat (if 0 \<le> x then \<lfloor>x\<rfloor> else - \<lfloor>- x\<rfloor>)
                   * length (load_feedback (feedback_file disk))
             \<and> retrain_main env (Finite x) disk =
                 (case retrain_model env
                         (train_texts @ concat (map (\<lambda>(text, human_label).
                            replicate (nat (if 0 \<le> x then \<lfloor>x\<rfloor> else - \<lfloor>- x\<rfloor>)) text)
                            (load_feedback (feedback_file disk))))
                         cls test_texts test_labels ag_news_label_names vec of
                    Inl e \<Rightarrow> (Raised e, disk)
                  | Inr (model, new_vectorizer, metrics) \<Rightarrow>
                      save_new_version env model new_vectorizer metrics
                        (retrain_get_current_model_version (models_dir disk) + 1) disk)))"
proof -
  let ?k = "nat (if 0 \<le> x then \<lfloor>x\<rfloor> else - \<lfloor>- x\<rfloor>)"
  have loaded: "load_feedback (Some entries) =
     map (\<lambda>e. (the (fb_text e), the (fb_human_label e)))
       (filter (\<lambda>e. fb_text e \<noteq> None \<and> fb_text e \<noteq> Some [] \<and> fb_human_label e \<noteq> None)
          entries)"
    by (simp add: load_feedback_def feedback_pairs_filter)
  have combined: "\<exists>cls. combine_datasets train_texts (map Label_id train_labels)
         (map (\<lambda>(text, human_label). (text, Label_name human_label)) (load_feedback fb))
         (Finite x) =
       Inr (train_texts @ concat (map (\<lambda>(text, human_label). replicate ?k text)
              (load_feedback fb)), cls)
       \<and> length cls = length train_labels + ?k * length (load_feedback fb)"
    by (rule combine_feedback_texts)
  have handed: "retrain_get_current_model_version (models_dir disk) \<noteq> 0
       \<and> load_dataset env = Inr (train_texts, train_labels, test_texts, test_labels)
       \<and> load_existing_vectorizer (models_dir disk)
             (retrain_get_current_model_version (models_dir disk)) = Inr vec
       \<longrightarrow> (\<exists>cls. length cls = length train_labels
                 + ?k * length (load_feedback (feedback_file disk))
             \<and> retrain_main env (Finite x) disk =
                 (case retrain_model env
                         (train_texts @ concat (map (\<lambda>(text, human_label). replicate ?k text)
                            (load_feedback (feedback_file disk))))
                         cls test_texts test_labels ag_news_label_names vec of
                    Inl e \<Rightarrow> (Raised e, disk)
                  | Inr (model, new_vectorizer, metrics) \<Rightarrow>
                      save_new_version env model new_vectorizer metrics
                        (retrain_get_current_model_version (models_dir disk) + 1) disk))"
  proof (intro impI, elim conjE)
    assume nz: "retrain_get_current_model_version (models_dir disk) \<noteq> 0"
      and corpus: "load_dataset env = Inr (train_texts, train_labels, test_texts, test_labels)"
      and vec: "load_existing_vectorizer (models_dir disk)
          (retrain_get_current_model_version (models_dir disk)) = Inr vec"
    obtain cls where comb: "combine_datasets train_texts (map Label_id train_labels)
         (map (\<lambda>(text, human_label). (text, Label_name human_label))
            (load_feedback (feedback_file disk))) (Finite x) =
       Inr (train_texts @ concat (map (\<lambda>(text, human_label). replicate ?k text)
              (load_feedback (feedback_file disk))), cls)"
      and len: "length cls = length train_labels + ?k * length (load_feedback (feedback_file disk))"
      using combine_feedback_texts [of train_texts train_labels
          "load_feedback (feedback_file disk)" x]
      by (elim exE conjE)
    have run: "retrain_main env (Finite x) disk =
        (case retrain_model env
                (train_texts @ concat (map (\<lambda>(text, human_label). replicate ?k text)
                   (load_feedback (feedback_file disk))))
                cls test_texts test_labels ag_news_label_names vec of
           Inl e \<Rightarrow> (Raised e, disk)
         | Inr (model, new_vectorizer, metrics) \<Rightarrow>
             save_new_version env model new_vectorizer metrics
               (retrain_get_current_model_version (models_dir disk) + 1) disk)"
      using nz corpus vec comb
      by (simp add: retrain_main_def del: combine_datasets_finite)
    from len run show "\<exists>cls. length cls = length train_labels
                 + ?k * length (load_feedback (feedback_file disk))
             \<and> retrain_main env (Finite x) disk =
                 (case retrain_model env
                         (train_texts @ concat (map (\<lambda>(text, human_label). replicate ?k text)
                            (load_feedback (feedback_file disk))))
                         cls test_texts test_labels ag_news_label_names vec of
                    Inl e \<Rightarrow> (Raised e, disk)
                  | Inr (model, new_vectorizer, metrics) \<Rightarrow>
                      save_new_version env model new_vectorizer metrics
                        (retrain_get_current_model_version (models_dir disk) + 1) disk)"
      by (intro exI [of _ cls] conjI)
  qed
  show ?thesis
    by (intro conjI; fact)
qed

theorem retrain_feedback_unchecked_witness:
  "retrain_get_current_model_version
     (Some [(''model_v1.joblib'', Joblib (5::nat))]) \<noteq> 0
   \<and> load_existing_vectorizer (Some [(''model_v1.joblib'', Joblib (5::nat))]) 1 = Inr None
   \<and> retrain_main
        \<lparr>load_dataset = Inr ([''t''], [0], [''u''], [1]),
         train_baseline_model = (\<lambda>a b c d e. Inl External_failure),
         retrain_model = (\<lambda>texts labels c d e f.
            if length texts = 3 \<and> length labels = 3 then Inl ValueError
            else Inr (7::nat, 8, 9::nat)),
         write_fails = (\<lambda>step. False)\<rparr>
        (Finite 2.5)
        \<lparr>models_dir = Some [(''model_v1.joblib'', Joblib 5)],
         feedback_file = Some [\<lparr>fb_text = Some ''text A'', fb_model_prediction = ''World'',
           fb_human_label = Some ''Local news'', fb_timestamp = ''2024-01-01T00:00:00'',
           fb_model_version = ''v1''\<rparr>],
         metrics_dir = None\<rparr> =
       (Raised ValueError,
        \<lparr>models_dir = Some [(''model_v1.joblib'', Joblib 5)],
         feedback_file = Some [\<lparr>fb_text = Some ''text A'', fb_model_prediction = ''World'',
           fb_human_label = Some ''Local news'', fb_timestamp = ''2024-01-01T00:00:00'',
           fb_model_version = ''v1''\<rparr>],
         metrics_dir = None\<rparr>)"
proof -
  let ?env = "\<lparr>load_dataset = Inr ([''t''], [0], [''u''], [1]),
         train_baseline_model = (\<lambda>a b c d e. Inl External_failure),
         retrain_model = (\<lambda>texts labels c d e f.
            if length texts = 3 \<and> length labels = 3 then Inl ValueError
            else Inr (7::nat, 8, 9::nat)),
         write_fails = (\<lambda>step. False)\<rparr>"
  let ?entry = "\<lparr>fb_text = Some ''text A'', fb_model_prediction = ''World'',
           fb_human_label = Some ''Local news'', fb_timestamp = ''2024-01-01T00:00:00'',
           fb_model_version = ''v1''\<rparr>"
  let ?disk = "\<lparr>models_dir = Some [(''model_v1.joblib'', Joblib (5::nat))],
         feedback_file = Some [?entry],
         metrics_dir = (None :: (string \<times> nat) list option)\<rparr>"
  have cur: "retrain_get_current_model_version
      (Some [(''model_v1.joblib'', Joblib (5::nat))]) = 1"
    by code_simp
  have h1: "retrain_get_current_model_version (models_dir ?disk) \<noteq> 0"
    by (simp add: cur)
  have h2: "load_dataset ?env = Inr ([''t''], [0], [''u''], [1])"
    by simp
  have vec: "load_existing_vectorizer (Some [(''model_v1.joblib'', Joblib (5::nat))]) 1 = Inr None"
    by (simp add: load_existing_vectorizer_def path_exists_def vectorizer_path_1)
  have h3: "load_existing_vectorizer (models_dir ?disk)
      (retrain_get_current_model_version (models_dir ?disk)) = Inr None"
    by (simp add: cur vec)
  have fb: "load_feedback (feedback_file ?disk) = [(''text A'', ''Local news'')]"
    by (simp add: load_feedback_def)
  have k: "nat (if 0 \<le> (2.5::real) then \<lfloor>2.5::real\<rfloor> else - \<lfloor>- (2.5::real)\<rfloor>) = 2"
    by simp
  from retrain_feedback_unchecked [where disk = ?disk and env = ?env and x = "2.5"
      and train_texts = "[''t'']" and train_labels = "[0]" and test_texts = "[''u'']"
      and test_labels = "[1]" and vec = None, THEN conjunct2, THEN conjunct2] h1 h2 h3
  obtain cls where len: "length cls = length [0::int]
      + nat (if 0 \<le> (2.5::real) then \<lfloor>2.5::real\<rfloor> else - \<lfloor>- (2.5::real)\<rfloor>)
        * length (load_feedback (feedback_file ?disk))"
    and run: "retrain_main ?env (Finite 2.5) ?disk =
      (case retrain_model ?env
              ([''t''] @ concat (map (\<lambda>(text, human_label).
                 replicate (nat (if 0 \<le> (2.5::real) then \<lfloor>2.5::real\<rfloor> else - \<lfloor>- (2.5::real)\<rfloor>)) text)
                 (load_feedback (feedback_file ?disk))))
              cls [''u''] [1] ag_news_label_names None of
         Inl e \<Rightarrow> (Raised e, ?disk)
       | Inr (model, new_vectorizer, metrics) \<Rightarrow>
           save_new_version ?env model new_vectorizer metrics
             (retrain_get_current_model_version (models_dir ?disk) + 1) ?disk)"
    by (elim impE exE conjE) (intro conjI)
  from len have len3: "length cls = 3"
    unfolding k fb by simp
  have "retrain_main ?env (Finite 2.5) ?disk = (Raised ValueError, ?disk)"
    unfolding run k fb using len3 by (simp add: numeral_2_eq_2)
  with h1 vec show ?thesis
    by simp
qed

section \<open>The metrics record\<close>

lemma sum_list_indicator_upt:
  "(\<Sum>j\<leftarrow>[0..<n]. if k = j then (1::nat) else 0) = (if k < n then 1 else 0)"
  by (induction n) auto

lemma count_pairs_row:
  assumes "length y_true = length y_pred" and "\<forall>p\<in>set y_pred. 0 \<le> p \<and> p < int n"
  shows "(\<Sum>j\<leftarrow>[0..<n]. count_pairs y_true y_pred i (int j)) = count_label y_true i"
  using assms
proof (induction y_true y_pred rule: list_induct2)
  case Nil
  show ?case by (simp add: count_pairs_def count_label_def)
next
  case (Cons t ts p ps)
  then have IH: "(\<Sum>j\<leftarrow>[0..<n]. count_pairs ts ps i (int j)) = count_label ts i"
    by simp
  from Cons.prems have p: "0 \<le> p" "p < int n" by simp_all
  have step: "count_pairs (t # ts) (p # ps) i (int j) =
      (if t = i \<and> p = int j then 1 else 0) + count_pairs ts ps i (int j)" for j
    by (simp add: count_pairs_def)
  have one: "(\<Sum>j\<leftarrow>[0..<n]. if p = int j then 1 else 0) = (1::nat)"
  proof -
    have "(\<Sum>j\<leftarrow>[0..<n]. if p = int j then 1 else 0) =
        (\<Sum>j\<leftarrow>[0..<n]. if nat p = j then 1 else (0::nat))"
      using p by (intro arg_cong [where f = sum_list] map_cong) auto
    also have "\<dots> = (if nat p < n then 1 else 0)"
      by (rule sum_list_indicator_upt)
    finally show ?thesis using p by simp
  qed
  have "(\<Sum>j\<leftarrow>[0..<n]. count_pairs (t # ts) (p # ps) i (int j)) =
      (\<Sum>j\<leftarrow>[0..<n]. if t = i \<and> p = int j then 1 else 0) + count_label ts i"
    by (simp add: step sum_list_addf IH)
  also have "\<dots> = count_label (t # ts) i"
    using one by (cases "t = i") (simp_all add: count_label_def)
  finally show ?case .
qed

lemma count_pairs_le: "count_pairs y_true y_pred i j \<le> count_label y_true i"
proof -
  have "count_pairs y_true y_pred i j \<le> length (filter (\<lambda>(t, p). t = i) (zip y_true y_pred))"
    unfolding count_pairs_def
    by (induction y_true y_pred rule: list_induct2') auto
  also have "\<dots> \<le> count_label y_true i"
    unfolding count_label_def
    by (induction y_true y_pred rule: list_induct2') auto
  finally show ?thesis .
qed

lemma fold_update_other:
  assumes "k \<notin> snd ` set ps"
  shows "map_of (fold (\<lambda>(i, label). AList.update label (f i)) ps acc) k = map_of acc k"
  using assms
  by (induction ps arbitrary: acc) (auto simp: update_conv')

lemma fold_update_lookup:
  assumes "distinct (map snd ps)" and "(i, k) \<in> set ps"
  shows "map_of (fold (\<lambda>(i, label). AList.update label (f i)) ps acc) k = Some (f i)"
  using assms
proof (induction ps arbitrary: acc)
  case Nil
  then show ?case by simp
next
  case (Cons p ps)
  obtain j l where p: "p = (j, l)" by (cases p)
  show ?case
  proof (cases "(i, k) = p")
    case True
    with Cons.prems p have "k \<notin> snd ` set ps" by auto
    then have "map_of (fold (\<lambda>(i, label). AList.update label (f i)) ps
        (AList.update k (f i) acc)) k = map_of (AList.update k (f i) acc) k"
      by (rule fold_update_other)
    with True p show ?thesis by (simp add: update_conv')
  next
    case False
    with Cons.prems have "(i, k) \<in> set ps" and "distinct (map snd ps)" by auto
    then show ?thesis using Cons.IH by simp
  qed
qed

lemma fold_update_keys:
  assumes "distinct (map snd ps)" and "snd ` set ps \<inter> fst ` set acc = {}"
  shows "map fst (fold (\<lambda>(i, label). AList.update label (f i)) ps acc) = map fst acc @ map snd ps"
  using assms
proof (induction ps arbitrary: acc)
  case Nil
  show ?case by simp
next
  case (Cons p ps)
  obtain j l where p: "p = (j, l)" by (cases p)
  from Cons.prems p have fresh: "l \<notin> fst ` set acc" and rest: "l \<notin> snd ` set ps"
    and d: "distinct (map snd ps)" and disj: "snd ` set ps \<inter> fst ` set acc = {}"
    by auto
  have keys: "map fst (AList.update l (f j) acc) = map fst acc @ [l]"
    using fresh by (simp add: update_keys)
  have "snd ` set ps \<inter> fst ` set (AList.update l (f j) acc) = {}"
    using rest disj by (auto simp: dom_update)
  with d have "map fst (fold (\<lambda>(i, label). AList.update label (f i)) ps
      (AList.update l (f j) acc)) = map fst (AList.update l (f j) acc) @ map snd ps"
    by (rule Cons.IH)
  then show ?case by (simp add: p keys)
qed

lemma confusion_matrix_Inr:
  assumes "confusion_matrix y_true y_pred n = Inr cm"
  shows "length y_true = length y_pred"
    and "cm = map (\<lambda>i. map (\<lambda>j. count_pairs y_true y_pred (int i) (int j)) [0..<n]) [0..<n]"
  using assms by (auto simp: confusion_matrix_def split: if_splits)

lemma precision_recall_fscore_support_Inr:
  assumes "precision_recall_fscore_support y_true y_pred n = Inr (precision, recall, f1, support)"
    and "i < n"
  shows "precision ! i =
      quotient_or_zero (count_pairs y_true y_pred (int i) (int i)) (count_label y_pred (int i))"
    and "recall ! i =
      quotient_or_zero (count_pairs y_true y_pred (int i) (int i)) (count_label y_true (int i))"
    and "f1 ! i =
      quotient_or_zero (2 * count_pairs y_true y_pred (int i) (int i))
        (count_label y_true (int i) + count_label y_pred (int i))"
    and "support ! i = count_label y_true (int i)"
  using assms
  by (auto simp: precision_recall_fscore_support_def Let_def split: if_splits)

lemma calculate_metrics_Inr:
  assumes "calculate_metrics summary y_true y_pred names = Inr r"
  obtains precision recall f1 support cm
  where "precision_recall_fscore_support y_true y_pred (length names) =
      Inr (precision, recall, f1, support)"
    and "confusion_matrix y_true y_pred (length names) = Inr cm"
    and "metrics_confusion_matrix r = cm"
    and "metrics_label_names r = names"
    and "metrics_per_class r =
      fold (\<lambda>(i, label). AList.update label
              \<lparr>class_precision = precision ! i, class_recall = recall ! i,
               class_f1 = f1 ! i, class_support = support ! i\<rparr>)
        (enumerate 0 names) []"
proof (cases summary)
  case (Inl e)
  with assms show ?thesis by (simp add: calculate_metrics_def)
next
  case (Inr scores)
  obtain a b c where scores: "summary = Inr (a, b, c)"
    using Inr by (cases scores) auto
  show ?thesis
  proof (cases "precision_recall_fscore_support y_true y_pred (length names)")
    case (Inl e)
    with assms scores show ?thesis by (simp add: calculate_metrics_def)
  next
    case (Inr per_label)
    obtain precision recall f1 support
      where prfs: "precision_recall_fscore_support y_true y_pred (length names) =
        Inr (precision, recall, f1, support)"
      using Inr by (cases per_label) auto
    show ?thesis
    proof (cases "confusion_matrix y_true y_pred (length names)")
      case (Inl e)
      with assms scores prfs show ?thesis by (simp add: calculate_metrics_def)
    next
      case (Inr cm)
      with assms scores prfs have r: "r = \<lparr>metrics_accuracy = a, metrics_f1_macro = b,
          metrics_f1_weighted = c,
          metrics_per_class =
            fold (\<lambda>(i, label). AList.update label
                    \<lparr>class_precision = precision ! i, class_recall = recall ! i,
                     class_f1 = f1 ! i, class_support = support ! i\<rparr>)
              (enumerate 0 names) [],
          metrics_confusion_matrix = cm, metrics_label_names = names\<rparr>"
        by (simp add: calculate_metrics_def)
      show ?thesis
        by (rule that [OF prfs Inr]) (simp_all add: r)
    qed
  qed
qed

text \<open>
  C7 (as stated). The claim gives the invariants for every metrics record. With the
  four labels of the corpus, true labels \<open>[0, 1]\<close> and predicted labels \<open>[0, 5]\<close>, a
  record is returned in which the row of \<open>Sports\<close> sums to 0 while the support
  reported for \<open>Sports\<close> is 1: the sample predicted as 5 has no column in the matrix.
  With the schema \<open>["A", "A"]\<close>, one true label 0 predicted as 0, the record has one
  \<open>per_class\<close> entry for the two labels, with support 0, while row 0 sums to 1.
\<close>

theorem calculate_metrics_counterexample:
  "map_sum id
     (\<lambda>r. (metrics_confusion_matrix r ! 1,
           map (\<lambda>(label, c). (label, class_support c)) (metrics_per_class r)))
     (calculate_metrics (Inr (Finite 0.5, Finite 0.5, Finite 0.5)) [0, 1] [0, 5]
        ag_news_label_names) =
     Inr ([0, 0, 0, 0],
          [(''World'', 1), (''Sports'', 1), (''Business'', 0), (''Sci/Tech'', 0)])
   \<and> map_sum id
     (\<lambda>r. (metrics_confusion_matrix r,
           map (\<lambda>(label, c). (label, class_support c)) (metrics_per_class r)))
     (calculate_metrics (Inr (Finite 1, Finite 1, Finite 1)) [0] [0] [''A'', ''A'']) =
     Inr ([[1, 0], [0, 0]], [(''A'', 0)])"
  by code_simp

text \<open>
  C7 (amended). For every metrics record that \<open>calculate_metrics\<close> returns for a label
  schema with distinct names and predicted labels that are ids of the schema: the
  confusion matrix is square with as many rows and columns as the schema has labels;
  entry \<open>(i, j)\<close> counts the samples with true label \<open>i\<close> and predicted label \<open>j\<close>, in
  schema order; \<open>per_class\<close> has an entry for every label of the schema, in schema
  order; the sum of row \<open>i\<close> equals the support reported for label \<open>i\<close>; and a label
  with support 0 is reported with precision, recall and F1 equal to 0.
\<close>

theorem calculate_metrics_invariants:
  assumes "calculate_metrics summary y_true y_pred names = Inr r"
    and "distinct names"
    and "\<forall>p\<in>set y_pred. 0 \<le> p \<and> p < int (length names)"
  shows "length (metrics_confusion_matrix r) = length names
    \<and> (\<forall>row\<in>set (metrics_confusion_matrix r). length row = length names)
    \<and> (\<forall>i<length names. \<forall>j<length names.
          metrics_confusion_matrix r ! i ! j = count_pairs y_true y_pred (int i) (int j))
    \<and> metrics_label_names r = names
    \<and> map fst (metrics_per_class r) = names
    \<and> (\<forall>i<length names. \<exists>c.
          map_of (metrics_per_class r) (names ! i) = Some c
          \<and> class_support c = count_label y_true (int i)
          \<and> sum_list (metrics_confusion_matrix r ! i) = class_support c
          \<and> (class_support c = 0
               \<longrightarrow> class_precision c = 0 \<and> class_recall c = 0 \<and> class_f1 c = 0))"
proof -
  let ?n = "length names"
  from assms(1) obtain precision recall f1 support cm
    where prfs: "precision_recall_fscore_support y_true y_pred ?n =
        Inr (precision, recall, f1, support)"
      and cm: "confusion_matrix y_true y_pred ?n = Inr cm"
      and r_cm: "metrics_confusion_matrix r = cm"
      and r_names: "metrics_label_names r = names"
      and r_pc: "metrics_per_class r =
        fold (\<lambda>(i, label). AList.update label
                \<lparr>class_precision = precision ! i, class_recall = recall ! i,
                 class_f1 = f1 ! i, class_support = support ! i\<rparr>)
          (enumerate 0 names) []"
    by (rule calculate_metrics_Inr)
  note len = confusion_matrix_Inr(1) [OF cm]
  have cm_eq: "metrics_confusion_matrix r =
      map (\<lambda>i. map (\<lambda>j. count_pairs y_true y_pred (int i) (int j)) [0..<?n]) [0..<?n]"
    using confusion_matrix_Inr(2) [OF cm] r_cm by simp
  have rows: "length (metrics_confusion_matrix r) = ?n"
    by (simp add: cm_eq)
  have cols: "\<forall>row\<in>set (metrics_confusion_matrix r). length row = ?n"
    by (auto simp: cm_eq)
  have entries: "\<forall>i<?n. \<forall>j<?n.
      metrics_confusion_matrix r ! i ! j = count_pairs y_true y_pred (int i) (int j)"
    by (simp add: cm_eq)
  have keys: "map fst (metrics_per_class r) = names"
    unfolding r_pc
    using fold_update_keys [of "enumerate 0 names" "[]"] assms(2) by simp
  have per_label: "\<forall>i<?n. \<exists>c.
          map_of (metrics_per_class r) (names ! i) = Some c
          \<and> class_support c = count_label y_true (int i)
          \<and> sum_list (metrics_confusion_matrix r ! i) = class_support c
          \<and> (class_support c = 0
               \<longrightarrow> class_precision c = 0 \<and> class_recall c = 0 \<and> class_f1 c = 0)"
  proof (intro allI impI)
    fix i
    assume i: "i < ?n"
    let ?c = "\<lparr>class_precision = precision ! i, class_recall = recall ! i,
        class_f1 = f1 ! i, class_support = support ! i\<rparr>"
    have "(i, names ! i) \<in> set (enumerate 0 names)"
      using i by (simp add: in_set_enumerate_eq)
    then have lookup: "map_of (metrics_per_class r) (names ! i) = Some ?c"
      unfolding r_pc
      using assms(2)
      by (intro fold_update_lookup [where f = "\<lambda>i. \<lparr>class_precision = precision ! i,
          class_recall = recall ! i, class_f1 = f1 ! i, class_support = support ! i\<rparr>"])
        simp_all
    note vals = precision_recall_fscore_support_Inr [OF prfs i]
    have sup: "class_support ?c = count_label y_true (int i)"
      by (simp add: vals)
    have row: "sum_list (metrics_confusion_matrix r ! i) = count_label y_true (int i)"
      using i count_pairs_row [OF len assms(3), of "int i"]
      by (simp add: cm_eq)
    have zero: "class_precision ?c = 0 \<and> class_recall ?c = 0 \<and> class_f1 ?c = 0"
      if "class_support ?c = 0"
    proof -
      from that sup have "count_label y_true (int i) = 0" by simp
      with count_pairs_le [of y_true y_pred "int i" "int i"]
      have "count_pairs y_true y_pred (int i) (int i) = 0" by simp
      then show ?thesis
        by (simp add: vals quotient_or_zero_def)
    qed
    from lookup sup row zero
    show "\<exists>c. map_of (metrics_per_class r) (names ! i) = Some c
          \<and> class_support c = count_label y_true (int i)
          \<and> sum_list (metrics_confusion_matrix r ! i) = class_support c
          \<and> (class_support c = 0
               \<longrightarrow> class_precision c = 0 \<and> class_recall c = 0 \<and> class_f1 c = 0)"
      by (intro exI [of _ ?c]) simp
  qed
  show ?thesis
    using rows cols entries r_names keys per_label by (intro conjI)
qed

theorem calculate_metrics_invariants_witness:
  "\<exists>r. calculate_metrics (Inr (Finite 0.75, Finite 0.6, Finite 0.7))
          [0, 1, 1, 3] [0, 1, 2, 3] ag_news_label_names = Inr r
     \<and> metrics_confusion_matrix r = [[1, 0, 0, 0], [0, 1, 1, 0], [0, 0, 0, 0], [0, 0, 0, 1]]
     \<and> length (metrics_confusion_matrix r) = 4
     \<and> map fst (metrics_per_class r) = [''World'', ''Sports'', ''Business'', ''Sci/Tech'']
     \<and> (\<exists>c. map_of (metrics_per_class r) ''Business'' = Some c
           \<and> class_support c = 0 \<and> class_precision c = 0 \<and> class_recall c = 0
           \<and> class_f1 c = 0)"
proof -
  obtain r where run: "calculate_metrics (Inr (Finite 0.75, Finite 0.6, Finite 0.7))
      [0, 1, 1, 3] [0, 1, 2, 3] ag_news_label_names = Inr r"
    and cm: "metrics_confusion_matrix r = [[1, 0, 0, 0], [0, 1, 1, 0], [0, 0, 0, 0], [0, 0, 0, 1]]"
    by (simp add: calculate_metrics_def precision_recall_fscore_support_def
        confusion_matrix_def count_pairs_def ag_news_label_names_def Let_def upt_rec)
  have d: "distinct ag_news_label_names"
    by (simp add: ag_news_label_names_def)
  have p: "\<forall>p\<in>set [0, 1, 2, 3 :: int]. 0 \<le> p \<and> p < int (length ag_news_label_names)"
    by (simp add: ag_news_label_names_def)
  note inv = calculate_metrics_invariants [OF run d p]
  have n: "length ag_news_label_names = 4" and third: "ag_news_label_names ! 2 = ''Business''"
    by (simp_all add: ag_news_label_names_def)
  have c2: "count_label [0, 1, 1, 3] (int 2) = 0"
    by (simp add: count_label_def)
  from inv have rows: "length (metrics_confusion_matrix r) = 4"
    using n by simp
  from inv have keys: "map fst (metrics_per_class r) = [''World'', ''Sports'', ''Business'', ''Sci/Tech'']"
    by (simp add: ag_news_label_names_def)
  have two: "2 < length ag_news_label_names"
    by (simp add: n)
  from inv have "\<forall>i<length ag_news_label_names. \<exists>c.
      map_of (metrics_per_class r) (ag_news_label_names ! i) = Some c
      \<and> class_support c = count_label [0, 1, 1, 3] (int i)
      \<and> sum_list (metrics_confusion_matrix r ! i) = class_support c
      \<and> (class_support c = 0 \<longrightarrow> class_precision c = 0 \<and> class_recall c = 0 \<and> class_f1 c = 0)"
    by (elim conjE)
  from this [rule_format, OF two] obtain c
    where c1: "map_of (metrics_per_class r) (ag_news_label_names ! 2) = Some c"
      and c2': "class_support c = count_label [0, 1, 1, 3] (int 2)"
      and c3: "class_support c = 0 \<longrightarrow> class_precision c = 0 \<and> class_recall c = 0 \<and> class_f1 c = 0"
    by (elim exE conjE)
  from c2' c2 have s0: "class_support c = 0" by simp
  with c3 have z: "class_precision c = 0" "class_recall c = 0" "class_f1 c = 0" by simp_all
  from c1 third have c1': "map_of (metrics_per_class r) ''Business'' = Some c" by simp
  have business: "\<exists>c. map_of (metrics_per_class r) ''Business'' = Some c
      \<and> class_support c = 0 \<and> class_precision c = 0 \<and> class_recall c = 0 \<and> class_f1 c = 0"
    using c1' s0 z by (intro exI [of _ c] conjI)
  show ?thesis
    using run cm rows keys business by (intro exI [of _ r] conjI)
qed

section \<open>The API endpoints\<close>

lemma strip_Nil: "strip [] = []"
  by (simp add: strip_def)

text \<open>
  A submission with a blank text or an empty human label is rejected with status 400
  and the disk is left as it was.
\<close>

lemma submit_feedback_rejects:
  assumes "strip (request_text request) = [] \<or> request_human_label request = []"
  shows "\<exists>detail. submit_feedback now request disk = (Inl (HTTPException 400 detail), disk)"
  using assms by (auto simp: submit_feedback_def)

text \<open>
  C3. The claim says that a submission whose \<open>human_label\<close> is white space only is
  rejected and nothing is stored. The code checks the text with \<open>strip()\<close> and the
  human label only for being the empty string: a submission with the human label
  \<open>" "\<close> is accepted, and a record with that label is appended to the store.
\<close>

theorem submit_feedback_whitespace_label:
  "strip '' '' = []
   \<and> submit_feedback ''2024-01-01T00:00:00''
       \<lparr>request_text = ''some news'', request_model_prediction = ''World'',
        request_human_label = '' ''\<rparr>
       \<lparr>models_dir = Some [(''model_v1.joblib'', Joblib (0::nat))], feedback_file = Some [],
        metrics_dir = (None :: (string \<times> nat) list option)\<rparr> =
     (Inr \<lparr>message = ''Feedback received successfully'', timestamp = ''2024-01-01T00:00:00''\<rparr>,
      \<lparr>models_dir = Some [(''model_v1.joblib'', Joblib 0)],
       feedback_file = Some [\<lparr>fb_text = Some ''some news'', fb_model_prediction = ''World'',
         fb_human_label = Some '' '', fb_timestamp = ''2024-01-01T00:00:00'',
         fb_model_version = ''v1''\<rparr>],
       metrics_dir = None\<rparr>)"
  by code_simp

text \<open>
  C9. When feedback is submitted while no model version is registered (no pointer file
  and no classifier file found by the scan), a submission with a text that is not
  blank and a human label that is not empty is accepted and appended to the store with
  the model version \<open>v1\<close>.
\<close>

theorem submit_feedback_no_model:
  assumes "\<not> path_exists (models_dir disk) ''current_version.txt''"
    and "(case models_dir disk of None \<Rightarrow> [] | Some d \<Rightarrow> scan_versions (listdir d)) = []"
    and "strip (request_text request) \<noteq> []"
    and "request_human_label request \<noteq> []"
  shows "submit_feedback now request disk =
     (Inr \<lparr>message = ''Feedback received successfully'', timestamp = now\<rparr>,
      disk\<lparr>feedback_file :=
        Some ((case feedback_file disk of None \<Rightarrow> [] | Some data \<Rightarrow> data) @
          [\<lparr>fb_text = Some (request_text request),
            fb_model_prediction = request_model_prediction request,
            fb_human_label = Some (request_human_label request),
            fb_timestamp = now,
            fb_model_version = ''v1''\<rparr>])\<rparr>)"
proof -
  from assms(1,2) have none: "api_get_current_model_version (models_dir disk) = Inr None"
    by (simp add: api_get_current_model_version_def)
  from assms(3) have nonempty: "request_text request \<noteq> []"
    using strip_Nil by auto
  show ?thesis
    using none nonempty assms(3,4)
    by (simp add: submit_feedback_def str_int_1)
qed

theorem submit_feedback_no_model_witness:
  "\<not> path_exists (None :: nat directory option) ''current_version.txt''
   \<and> strip ''some news'' \<noteq> []
   \<and> submit_feedback ''2024-01-01T00:00:00''
       \<lparr>request_text = ''some news'', request_model_prediction = ''World'',
        request_human_label = ''Sports''\<rparr>
       \<lparr>models_dir = (None :: nat directory option), feedback_file = None,
        metrics_dir = (None :: (string \<times> nat) list option)\<rparr> =
     (Inr \<lparr>message = ''Feedback received successfully'', timestamp = ''2024-01-01T00:00:00''\<rparr>,
      \<lparr>models_dir = None,
       feedback_file = Some [\<lparr>fb_text = Some ''some news'', fb_model_prediction = ''World'',
         fb_human_label = Some ''Sports'', fb_timestamp = ''2024-01-01T00:00:00'',
         fb_model_version = ''v1''\<rparr>],
       metrics_dir = None\<rparr>)"
proof -
  let ?disk = "\<lparr>models_dir = (None :: nat directory option), feedback_file = None,
        metrics_dir = (None :: (string \<times> nat) list option)\<rparr>"
  let ?request = "\<lparr>request_text = ''some news'', request_model_prediction = ''World'',
        request_human_label = ''Sports''\<rparr>"
  have h1: "\<not> path_exists (models_dir ?disk) ''current_version.txt''"
    by (simp add: path_exists_def)
  have h2: "(case models_dir ?disk of None \<Rightarrow> [] | Some d \<Rightarrow> scan_versions (listdir d)) = []"
    by simp
  have h3: "strip (request_text ?request) \<noteq> []"
    by (simp add: strip_def is_space_def)
  have h4: "request_human_label ?request \<noteq> []"
    by simp
  from submit_feedback_no_model [OF h1 h2 h3 h4, of "''2024-01-01T00:00:00''"] h1 h3
  show ?thesis by simp
qed

text \<open>
  C2 (as stated). The claim says that a prediction request with an empty text fails
  with \<open>EmptyInput\<close> before any model load is attempted. \<open>predict\<close> loads the model
  first when none is loaded: with an empty registry the empty text is answered with
  status 500, model not available; with version 1 stored, the model is loaded and the
  globals are set before the request is rejected with status 400.
\<close>

theorem predict_empty_text_counterexample:
  "predict (\<lambda>model vectorizer text. Inr (0, 1)) ''''
     (None :: nat directory option)
     \<lparr>current_model = None, current_vectorizer = None, current_version = None,
      label_names = None\<rparr> =
   (Inl (HTTPException 500 (Model_not_available ValueError)),
    \<lparr>current_model = None, current_vectorizer = None, current_version = None,
     label_names = None\<rparr>)
   \<and> predict (\<lambda>model vectorizer text. Inr (0, 1)) ''''
     (Some [(''model_v1.joblib'', Joblib (7::nat)), (''vectorizer_v1.joblib'', Joblib 8)])
     \<lparr>current_model = None, current_vectorizer = None, current_version = None,
      label_names = None\<rparr> =
   (Inl (HTTPException 400 Text_cannot_be_empty),
    \<lparr>current_model = Some 7, current_vectorizer = Some 8, current_version = Some 1,
     label_names = Some [''World'', ''Sports'', ''Business'', ''Sci/Tech'']\<rparr>)"
  by code_simp

text \<open>
  C2 (amended). For every prediction request whose text is empty or white space only:
  when a model and a vectorizer are loaded, the request fails with status 400, text
  cannot be empty, and no load is attempted; when one of them is not loaded, the load
  is attempted first, and the request fails with status 400 if the load succeeds and
  with status 500, model not available, if it fails.
\<close>

theorem predict_blank_text:
  assumes "strip request = []"
  shows "(current_model server \<noteq> None \<and> current_vectorizer server \<noteq> None
          \<longrightarrow> predict classify request dir server =
                (Inl (HTTPException 400 Text_cannot_be_empty), server))
    \<and> (current_model server = None \<or> current_vectorizer server = None
          \<longrightarrow> predict classify request dir server =
                (case load_model None dir server of
                   (None, loaded) \<Rightarrow> (Inl (HTTPException 400 Text_cannot_be_empty), loaded)
                 | (Some e, unloaded) \<Rightarrow>
                     (Inl (HTTPException 500 (Model_not_available e)), unloaded)))"
  using assms
  by (auto simp: predict_def split: prod.splits option.splits)

theorem predict_blank_text_witness:
  "strip '' '' = []
   \<and> predict (\<lambda>model vectorizer text. Inr (0, 1)) '' '' (None :: nat directory option)
       \<lparr>current_model = Some 7, current_vectorizer = Some 8, current_version = Some 1,
        label_names = None\<rparr> =
     (Inl (HTTPException 400 Text_cannot_be_empty),
      \<lparr>current_model = Some 7, current_vectorizer = Some 8, current_version = Some 1,
       label_names = None\<rparr>)"
proof -
  have h: "strip '' '' = []"
    by code_simp
  from predict_blank_text [OF h, THEN conjunct1, rule_format,
      of "\<lparr>current_model = Some (7::nat), current_vectorizer = Some 8, current_version = Some 1,
        label_names = None\<rparr>" "\<lambda>model vectorizer text. Inr (0, 1)" "None"] h
  show ?thesis by simp
qed

section \<open>What the serving layer resolves after a failed commit\<close>

lemma set_scan_versions:
  "set (scan_versions names) = (\<Union>f\<in>set names. set (scan_versions [f]))"
proof (induction names)
  case Nil
  show ?case by (simp add: scan_versions.simps)
next
  case (Cons f names)
  have "set (scan_versions (f # names)) = set (scan_versions [f]) \<union> set (scan_versions names)"
    by (simp add: scan_versions.simps split: sum.splits)
  with Cons show ?case by simp
qed

lemma scan_model_path: "scan_versions [model_path n] = [n]"
  by (simp add: scan_versions.simps model_path_starts model_path_ends version_of_model_path
      int_of_str_str_int)

lemma scan_vectorizer_path: "scan_versions [vectorizer_path n] = []"
  by (simp add: scan_versions.simps vectorizer_path_def startswith_def)

lemma scan_pointer: "scan_versions [''current_version.txt''] = []"
  by (simp add: scan_versions.simps startswith_def)

lemma scan_write_file:
  "set (scan_versions (listdir (write_file name c d))) =
     set (scan_versions [name]) \<union> set (scan_versions (listdir d))"
proof -
  have "set (listdir (write_file name c d)) = insert name (set (listdir d))"
    by (simp add: listdir_def write_file_def dom_update)
  then show ?thesis
    using set_scan_versions [of "listdir (write_file name c d)"]
      set_scan_versions [of "listdir d"]
    by simp
qed

lemma save_new_version_scan:
  assumes "\<not> write_fails env Dump_model"
  shows "\<exists>d'. models_dir (snd (save_new_version env model vectorizer metrics n disk)) = Some d'
    \<and> set (scan_versions (listdir d')) =
        insert n (set (scan_versions (listdir (makedirs (models_dir disk)))))"
proof (cases "write_fails env Dump_vectorizer")
  case True
  with assms show ?thesis
    by (simp add: save_new_version_steps scan_write_file scan_model_path)
next
  case dv: False
  show ?thesis
  proof (cases "write_fails env Save_metrics")
    case True
    with assms dv show ?thesis
      by (simp add: save_new_version_steps save_model_def scan_write_file scan_model_path
          scan_vectorizer_path)
  next
    case sm: False
    show ?thesis
    proof (cases "write_fails env Write_pointer")
      case True
      with assms dv sm show ?thesis
        by (simp add: save_new_version_steps save_model_def scan_write_file scan_model_path
            scan_vectorizer_path)
    next
      case False
      with assms dv sm show ?thesis
        by (simp add: save_new_version_steps save_model_def scan_write_file scan_model_path
            scan_vectorizer_path scan_pointer)
    qed
  qed
qed

lemma scanned_versions_bound:
  assumes "v \<in> set (scan_versions (listdir (makedirs dir)))"
  shows "v \<le> retrain_get_current_model_version dir"
proof (cases dir)
  case None
  with assms show ?thesis
    by (simp add: makedirs_def listdir_def scan_versions.simps)
next
  case (Some d)
  with assms have mem: "v \<in> set (scan_versions (listdir d))"
    by (simp add: makedirs_def)
  then have "scan_versions (listdir d) \<noteq> []" by auto
  then have "retrain_get_current_model_version (Some d) = Max (set (scan_versions (listdir d)))"
    by (simp add: retrain_get_current_model_version_Max)
  with mem Some show ?thesis by simp
qed

lemma api_resolves_scanned_maximum:
  assumes "map_of d ''current_version.txt'' = None"
    and "set (scan_versions (listdir d)) = insert n S"
    and "\<forall>v\<in>S. v \<le> n"
  shows "api_get_current_model_version (Some d) = Inr (Some n)"
proof -
  from assms(2) have ne: "scan_versions (listdir d) \<noteq> []" by auto
  have "Max (set (scan_versions (listdir d))) = n"
  proof (rule Max_eqI)
    show "finite (set (scan_versions (listdir d)))" by simp
    show "y \<le> n" if "y \<in> set (scan_versions (listdir d))" for y
      using that assms(2,3) by auto
    show "n \<in> set (scan_versions (listdir d))"
      using assms(2) by simp
  qed
  with ne assms(1) show ?thesis
    by (simp add: api_get_current_model_version_def path_exists_def Let_def py_max_Max)
qed

lemma failed_commit_is_served:
  assumes "\<not> path_exists (models_dir disk) ''current_version.txt''"
    and "\<not> write_fails env Dump_model"
    and "write_fails env Dump_vectorizer \<or> write_fails env Save_metrics
      \<or> write_fails env Write_pointer"
  shows "fst (save_new_version env model vectorizer metrics
             (retrain_get_current_model_version (models_dir disk) + 1) disk) = Raised OSError
    \<and> api_get_current_model_version
        (models_dir (snd (save_new_version env model vectorizer metrics
             (retrain_get_current_model_version (models_dir disk) + 1) disk))) =
      Inr (Some (retrain_get_current_model_version (models_dir disk) + 1))"
proof -
  let ?n = "retrain_get_current_model_version (models_dir disk) + 1"
  let ?r = "save_new_version env model vectorizer metrics ?n disk"
  from assms(3) have fails: "write_fails env Dump_model \<or> write_fails env Dump_vectorizer
      \<or> write_fails env Save_metrics \<or> write_fails env Write_pointer"
    by blast
  note ptr = save_new_version_pointer [OF fails, of model vectorizer metrics ?n disk]
  from assms(1) have "map_of (makedirs (models_dir disk)) ''current_version.txt'' = None"
    by (cases "models_dir disk") (simp_all add: path_exists_def makedirs_def)
  with ptr have absent: "map_of (makedirs (models_dir (snd ?r))) ''current_version.txt'' = None"
    by simp
  obtain d' where d': "models_dir (snd ?r) = Some d'"
    and scan: "set (scan_versions (listdir d')) =
        insert ?n (set (scan_versions (listdir (makedirs (models_dir disk)))))"
    using save_new_version_scan [OF assms(2), of model vectorizer metrics ?n disk]
    by (elim exE conjE)
  from absent d' have none: "map_of d' ''current_version.txt'' = None"
    by (simp add: makedirs_def)
  have bound: "\<forall>v\<in>set (scan_versions (listdir (makedirs (models_dir disk)))). v \<le> ?n"
    using scanned_versions_bound [of _ "models_dir disk"] by fastforce
  have "api_get_current_model_version (Some d') = Inr (Some ?n)"
    using none scan bound by (rule api_resolves_scanned_maximum)
  with ptr d' show ?thesis by simp
qed

text \<open>
  C5 (as stated). The claim says that when the metrics write fails the new version is
  never promoted. The baseline script writes no pointer file, and without one the
  serving layer resolves the current version by scanning the classifier files. Take
  the disk that a baseline run leaves on an empty disk, where the serving layer
  resolves version 1, and a retraining run whose metrics write fails: the run raises,
  no metrics of version 2 are stored, and the serving layer then resolves version 2
  and loads its classifier and vectorizer.
\<close>

theorem retrain_failed_metrics_counterexample:
  "api_get_current_model_version (models_dir (snd (train_baseline_main
      \<lparr>load_dataset = Inr ([''t''], [0], [''u''], [1]),
       train_baseline_model = (\<lambda>a b c d e. Inr (1::nat, 2, 3::nat)),
       retrain_model = (\<lambda>a b c d e f. Inr (7, 8, 9)),
       write_fails = (\<lambda>step. step = Save_metrics)\<rparr>
      \<lparr>models_dir = None, feedback_file = None, metrics_dir = None\<rparr>))) = Inr (Some 1)
   \<and> fst (retrain_main
      \<lparr>load_dataset = Inr ([''t''], [0], [''u''], [1]),
       train_baseline_model = (\<lambda>a b c d e. Inr (1::nat, 2, 3::nat)),
       retrain_model = (\<lambda>a b c d e f. Inr (7, 8, 9)),
       write_fails = (\<lambda>step. step = Save_metrics)\<rparr>
      (Finite 1)
      (snd (train_baseline_main
      \<lparr>load_dataset = Inr ([''t''], [0], [''u''], [1]),
       train_baseline_model = (\<lambda>a b c d e. Inr (1::nat, 2, 3::nat)),
       retrain_model = (\<lambda>a b c d e f. Inr (7, 8, 9)),
       write_fails = (\<lambda>step. step = Save_metrics)\<rparr>
      \<lparr>models_dir = None, feedback_file = None, metrics_dir = None\<rparr>))) = Raised OSError
   \<and> load_metrics 2 (metrics_dir (snd (retrain_main
      \<lparr>load_dataset = Inr ([''t''], [0], [''u''], [1]),
       train_baseline_model = (\<lambda>a b c d e. Inr (1::nat, 2, 3::nat)),
       retrain_model = (\<lambda>a b c d e f. Inr (7, 8, 9)),
       write_fails = (\<lambda>step. step = Save_metrics)\<rparr>
      (Finite 1)
      (snd (train_baseline_main
      \<lparr>load_dataset = Inr ([''t''], [0], [''u''], [1]),
       train_baseline_model = (\<lambda>a b c d e. Inr (1::nat, 2, 3::nat)),
       retrain_model = (\<lambda>a b c d e f. Inr (7, 8, 9)),
       write_fails = (\<lambda>step. step = Save_metrics)\<rparr>
      \<lparr>models_dir = None, feedback_file = None, metrics_dir = None\<rparr>))))) = None
   \<and> api_get_current_model_version (models_dir (snd (retrain_main
      \<lparr>load_dataset = Inr ([''t''], [0], [''u''], [1]),
       train_baseline_model = (\<lambda>a b c d e. Inr (1::nat, 2, 3::nat)),
       retrain_model = (\<lambda>a b c d e f. Inr (7, 8, 9)),
       write_fails = (\<lambda>step. step = Save_metrics)\<rparr>
      (Finite 1)
      (snd (train_baseline_main
      \<lparr>load_dataset = Inr ([''t''], [0], [''u''], [1]),
       train_baseline_model = (\<lambda>a b c d e. Inr (1::nat, 2, 3::nat)),
       retrain_model = (\<lambda>a b c d e f. Inr (7, 8, 9)),
       write_fails = (\<lambda>step. step = Save_metrics)\<rparr>
      \<lparr>models_dir = None, feedback_file = None, metrics_dir = None\<rparr>))))) = Inr (Some 2)
   \<and> load_model None (models_dir (snd (retrain_main
      \<lparr>load_dataset = Inr ([''t''], [0], [''u''], [1]),
       train_baseline_model = (\<lambda>a b c d e. Inr (1::nat, 2, 3::nat)),
       retrain_model = (\<lambda>a b c d e f. Inr (7, 8, 9)),
       write_fails = (\<lambda>step. step = Save_metrics)\<rparr>
      (Finite 1)
      (snd (train_baseline_main
      \<lparr>load_dataset = Inr ([''t''], [0], [''u''], [1]),
       train_baseline_model = (\<lambda>a b c d e. Inr (1::nat, 2, 3::nat)),
       retrain_model = (\<lambda>a b c d e f. Inr (7, 8, 9)),
       write_fails = (\<lambda>step. step = Save_metrics)\<rparr>
      \<lparr>models_dir = None, feedback_file = None, metrics_dir = None\<rparr>)))))
       \<lparr>current_model = None, current_vectorizer = None, current_version = None,
        label_names = None\<rparr> =
     (None,
      \<lparr>current_model = Some 7, current_vectorizer = Some 8, current_version = Some 2,
       label_names = Some [''World'', ''Sports'', ''Business'', ''Sci/Tech'']\<rparr>)"
  by code_simp

text \<open>
  C5 (amended). The commit of a retraining run is its last stage and writes in the
  order classifier and vectorizer, metrics, pointer file: a run either reaches the
  commit or leaves the disk as it was (no baseline, a failed corpus load, a failed
  training); a failure of the metrics write, or of any write before the pointer write,
  leaves the pointer file as it was; when the artifact writes succeed and the metrics
  write fails the artifacts are stored and the metrics are not; when only the pointer
  write fails artifacts and metrics are stored; when no write fails the pointer holds
  the new version. The artifacts written before a failed write stay on the disk: where
  there is no pointer file, the serving layer resolves the baseline version before the
  run, and the new version after a run whose classifier write succeeded and whose
  vectorizer, metrics or pointer write failed.
\<close>

theorem retrain_commit_order:
  "(((\<exists>model vectorizer metrics.
       retrain_main env w disk =
         save_new_version env model vectorizer metrics
           (retrain_get_current_model_version (models_dir disk) + 1) disk)
     \<or> snd (retrain_main env w disk) = disk)
   \<and> (retrain_get_current_model_version (models_dir disk) = 0
        \<longrightarrow> retrain_main env w disk = (No_baseline_model, disk))
   \<and> (\<forall>e. load_dataset env = Inl e \<longrightarrow> snd (retrain_main env w disk) = disk)
   \<and> ((\<forall>a b c d e f. \<exists>err. retrain_model env a b c d e f = Inl err)
        \<longrightarrow> snd (retrain_main env w disk) = disk)
   \<and> (write_fails env Save_metrics
        \<longrightarrow> map_of (makedirs (models_dir (snd (retrain_main env w disk)))) ''current_version.txt'' =
            map_of (makedirs (models_dir disk)) ''current_version.txt'')
   \<and> (\<forall>model vectorizer metrics n d.
        (write_fails env Dump_model \<or> write_fails env Dump_vectorizer
           \<or> write_fails env Save_metrics \<or> write_fails env Write_pointer
         \<longrightarrow> fst (save_new_version env model vectorizer metrics n d) = Raised OSError
             \<and> map_of (makedirs (models_dir (snd (save_new_version env model vectorizer metrics n d))))
                  ''current_version.txt'' =
                map_of (makedirs (models_dir d)) ''current_version.txt'')
        \<and> (write_fails env Dump_model \<or> write_fails env Dump_vectorizer
           \<or> write_fails env Save_metrics
         \<longrightarrow> load_metrics n (metrics_dir (snd (save_new_version env model vectorizer metrics n d))) =
               load_metrics n (metrics_dir d))
        \<and> (\<not> write_fails env Dump_model \<and> \<not> write_fails env Dump_vectorizer
         \<longrightarrow> load_model_and_vectorizer n
               (models_dir (snd (save_new_version env model vectorizer metrics n d))) =
               Inr (model, vectorizer))
        \<and> (\<not> write_fails env Dump_model \<and> \<not> write_fails env Dump_vectorizer
           \<and> \<not> write_fails env Save_metrics
         \<longrightarrow> load_metrics n (metrics_dir (snd (save_new_version env model vectorizer metrics n d))) =
               Some metrics)
        \<and> (\<not> write_fails env Dump_model \<and> \<not> write_fails env Dump_vectorizer
           \<and> \<not> write_fails env Save_metrics \<and> \<not> write_fails env Write_pointer
         \<longrightarrow> fst (save_new_version env model vectorizer metrics n d) = Completed n
             \<and> api_get_current_model_version
                  (models_dir (snd (save_new_version env model vectorizer metrics n d))) =
                Inr (Some n))))
   \<and> (\<not> path_exists (models_dir disk) ''current_version.txt''
        \<and> retrain_get_current_model_version (models_dir disk) \<noteq> 0
        \<longrightarrow> api_get_current_model_version (models_dir disk) =
              Inr (Some (retrain_get_current_model_version (models_dir disk))))
   \<and> (\<not> path_exists (models_dir disk) ''current_version.txt''
        \<and> \<not> write_fails env Dump_model
        \<and> (write_fails env Dump_vectorizer \<or> write_fails env Save_metrics
             \<or> write_fails env Write_pointer)
        \<and> (\<exists>model vectorizer metrics.
              retrain_main env w disk =
                save_new_version env model vectorizer metrics
                  (retrain_get_current_model_version (models_dir disk) + 1) disk)
        \<longrightarrow> fst (retrain_main env w disk) = Raised OSError
            \<and> api_get_current_model_version (models_dir (snd (retrain_main env w disk))) =
                Inr (Some (retrain_get_current_model_version (models_dir disk) + 1)))"
proof -
  let ?cur = "retrain_get_current_model_version (models_dir disk)"
  have steps: "((\<exists>model vectorizer metrics.
       retrain_main env w disk =
         save_new_version env model vectorizer metrics
           (retrain_get_current_model_version (models_dir disk) + 1) disk)
     \<or> snd (retrain_main env w disk) = disk)
   \<and> (retrain_get_current_model_version (models_dir disk) = 0
        \<longrightarrow> retrain_main env w disk = (No_baseline_model, disk))
   \<and> (\<forall>e. load_dataset env = Inl e \<longrightarrow> snd (retrain_main env w disk) = disk)
   \<and> ((\<forall>a b c d e f. \<exists>err. retrain_model env a b c d e f = Inl err)
        \<longrightarrow> snd (retrain_main env w disk) = disk)
   \<and> (write_fails env Save_metrics
        \<longrightarrow> map_of (makedirs (models_dir (snd (retrain_main env w disk)))) ''current_version.txt'' =
            map_of (makedirs (models_dir disk)) ''current_version.txt'')
   \<and> (\<forall>model vectorizer metrics n d.
        (write_fails env Dump_model \<or> write_fails env Dump_vectorizer
           \<or> write_fails env Save_metrics \<or> write_fails env Write_pointer
         \<longrightarrow> fst (save_new_version env model vectorizer metrics n d) = Raised OSError
             \<and> map_of (makedirs (models_dir (snd (save_new_version env model vectorizer metrics n d))))
                  ''current_version.txt'' =
                map_of (makedirs (models_dir d)) ''current_version.txt'')
        \<and> (write_fails env Dump_model \<or> write_fails env Dump_vectorizer
           \<or> write_fails env Save_metrics
         \<longrightarrow> load_metrics n (metrics_dir (snd (save_new_version env model vectorizer metrics n d))) =
               load_metrics n (metrics_dir d))
        \<and> (\<not> write_fails env Dump_model \<and> \<not> write_fails env Dump_vectorizer
         \<longrightarrow> load_model_and_vectorizer n
               (models_dir (snd (save_new_version env model vectorizer metrics n d))) =
               Inr (model, vectorizer))
        \<and> (\<not> write_fails env Dump_model \<and> \<not> write_fails env Dump_vectorizer
           \<and> \<not> write_fails env Save_metrics
         \<longrightarrow> load_metrics n (metrics_dir (snd (save_new_version env model vectorizer metrics n d))) =
               Some metrics)
        \<and> (\<not> write_fails env Dump_model \<and> \<not> write_fails env Dump_vectorizer
           \<and> \<not> write_fails env Save_metrics \<and> \<not> write_fails env Write_pointer
         \<longrightarrow> fst (save_new_version env model vectorizer metrics n d) = Completed n
             \<and> api_get_current_model_version
                  (models_dir (snd (save_new_version env model vectorizer metrics n d))) =
                Inr (Some n)))"
    by (rule retrain_commit_steps)
  have before: "\<not> path_exists (models_dir disk) ''current_version.txt'' \<and> ?cur \<noteq> 0
        \<longrightarrow> api_get_current_model_version (models_dir disk) = Inr (Some ?cur)"
  proof (intro impI, elim conjE)
    assume absent: "\<not> path_exists (models_dir disk) ''current_version.txt''"
      and nz: "?cur \<noteq> 0"
    from nz obtain d where d: "models_dir disk = Some d"
      by (cases "models_dir disk") (simp_all add: retrain_get_current_model_version_def)
    from nz d have ne: "scan_versions (listdir d) \<noteq> []"
      by (auto simp: retrain_get_current_model_version_def Let_def)
    with d have "?cur = py_max (scan_versions (listdir d))"
      by (simp add: retrain_get_current_model_version_def Let_def)
    with absent d ne show "api_get_current_model_version (models_dir disk) = Inr (Some ?cur)"
      by (simp add: api_get_current_model_version_def Let_def)
  qed
  have after: "\<not> path_exists (models_dir disk) ''current_version.txt''
        \<and> \<not> write_fails env Dump_model
        \<and> (write_fails env Dump_vectorizer \<or> write_fails env Save_metrics
             \<or> write_fails env Write_pointer)
        \<and> (\<exists>model vectorizer metrics.
              retrain_main env w disk =
                save_new_version env model vectorizer metrics (?cur + 1) disk)
        \<longrightarrow> fst (retrain_main env w disk) = Raised OSError
            \<and> api_get_current_model_version (models_dir (snd (retrain_main env w disk))) =
                Inr (Some (?cur + 1))"
  proof (intro impI, elim conjE exE)
    fix model vectorizer metrics
    assume absent: "\<not> path_exists (models_dir disk) ''current_version.txt''"
      and dm: "\<not> write_fails env Dump_model"
      and later: "write_fails env Dump_vectorizer \<or> write_fails env Save_metrics
             \<or> write_fails env Write_pointer"
      and reached: "retrain_main env w disk =
          save_new_version env model vectorizer metrics (?cur + 1) disk"
    show "fst (retrain_main env w disk) = Raised OSError
        \<and> api_get_current_model_version (models_dir (snd (retrain_main env w disk))) =
            Inr (Some (?cur + 1))"
      unfolding reached
      using absent dm later by (rule failed_commit_is_served)
  qed
  show ?thesis
    by (rule conjI [OF steps conjI [OF before after]])
qed

theorem retrain_commit_order_witness:
  "\<not> path_exists (Some [(''model_v1.joblib'', Joblib (1::nat)), (''vectorizer_v1.joblib'', Joblib 2)])
       ''current_version.txt''
   \<and> fst (retrain_main
        \<lparr>load_dataset = Inr ([''t''], [0], [''u''], [1]),
       train_baseline_model = (\<lambda>a b c d e. Inr (1::nat, 2, 3::nat)),
       retrain_model = (\<lambda>a b c d e f. Inr (7, 8, 9)),
       write_fails = (\<lambda>step. step = Save_metrics)\<rparr>
        (Finite 1)
        \<lparr>models_dir = Some [(''model_v1.joblib'', Joblib 1), (''vectorizer_v1.joblib'', Joblib 2)],
        feedback_file = None, metrics_dir = None\<rparr>) = Raised OSError
   \<and> api_get_current_model_version (models_dir (snd (retrain_main
        \<lparr>load_dataset = Inr ([''t''], [0], [''u''], [1]),
       train_baseline_model = (\<lambda>a b c d e. Inr (1::nat, 2, 3::nat)),
       retrain_model = (\<lambda>a b c d e f. Inr (7, 8, 9)),
       write_fails = (\<lambda>step. step = Save_metrics)\<rparr>
        (Finite 1)
        \<lparr>models_dir = Some [(''model_v1.joblib'', Joblib 1), (''vectorizer_v1.joblib'', Joblib 2)],
        feedback_file = None, metrics_dir = None\<rparr>))) = Inr (Some 2)"
proof -
  let ?env = "\<lparr>load_dataset = Inr ([''t''], [0], [''u''], [1]),
       train_baseline_model = (\<lambda>a b c d e. Inr (1::nat, 2, 3::nat)),
       retrain_model = (\<lambda>a b c d e f. Inr (7, 8, 9)),
       write_fails = (\<lambda>step. step = Save_metrics)\<rparr>"
  let ?disk = "\<lparr>models_dir = Some [(''model_v1.joblib'', Joblib (1::nat)),
          (''vectorizer_v1.joblib'', Joblib 2)],
        feedback_file = None, metrics_dir = (None :: (string \<times> nat) list option)\<rparr>"
  have cur: "retrain_get_current_model_version (models_dir ?disk) = 1"
    by code_simp
  have h1: "\<not> path_exists (models_dir ?disk) ''current_version.txt''"
    by (simp add: path_exists_def)
  have h2: "\<not> write_fails ?env Dump_model"
    by simp
  have h3: "write_fails ?env Dump_vectorizer \<or> write_fails ?env Save_metrics
      \<or> write_fails ?env Write_pointer"
    by simp
  have "retrain_main ?env (Finite 1) ?disk =
      save_new_version ?env 7 8 9 (retrain_get_current_model_version (models_dir ?disk) + 1) ?disk"
    by code_simp
  then have h4: "\<exists>model vectorizer metrics. retrain_main ?env (Finite 1) ?disk =
      save_new_version ?env model vectorizer metrics
        (retrain_get_current_model_version (models_dir ?disk) + 1) ?disk"
    by (intro exI)
  have served: "fst (retrain_main ?env (Finite 1) ?disk) = Raised OSError
      \<and> api_get_current_model_version (models_dir (snd (retrain_main ?env (Finite 1) ?disk))) =
          Inr (Some (retrain_get_current_model_version (models_dir ?disk) + 1))"
    by (rule retrain_commit_order [where env = ?env and disk = ?disk and w = "Finite 1",
        THEN conjunct2, THEN conjunct2, rule_format, OF conjI [OF h1 conjI [OF h2 conjI [OF h3 h4]]]])
  from h1 have a: "\<not> path_exists (Some [(''model_v1.joblib'', Joblib (1::nat)),
      (''vectorizer_v1.joblib'', Joblib 2)]) ''current_version.txt''"
    by simp
  from served have b: "fst (retrain_main ?env (Finite 1) ?disk) = Raised OSError"
    by (rule conjunct1)
  from served have c: "api_get_current_model_version
      (models_dir (snd (retrain_main ?env (Finite 1) ?disk))) = Inr (Some 2)"
    unfolding cur by simp
  from a b c show ?thesis by (intro conjI)
qed

end
